theory Spec2Isabelle
  imports Complex_Main "HOL-Library.Word"
begin

section \<open>Platform layer of the game: sound device and relative mouse mode\<close>

text \<open>
  The theory embeds \<^verbatim>\<open>src/platform/sound_device.c\<close> and
  \<^verbatim>\<open>src/platform/mouse.c\<close>. Both files are glue code over the SDL and
  SDL_mixer libraries: what they compute is the content of a few static structs and the
  sequence of library calls they make. The model therefore keeps

  \<^item> the static structs as records, passed explicitly;
  \<^item> every library call as an entry of a call log, in program order, together with the
    result the library gave when the code looks at it;
  \<^item> the results of the library as an environment record handed to each operation;
  \<^item> the few facts of library state the specification talks about (which music is
    loaded and playing, which hook is installed, which audio streams exist) as a record
    that is updated by the logged calls only;
  \<^item> undefined behaviour of the C code (an index outside the channel table, a null
    pointer that is dereferenced) as a \<open>fault\<close> value.

  C \<^verbatim>\<open>int\<close> values are modelled as \<open>int\<close>: the functions compare, copy and
  count them, and the one multiplication (in the panning call) checks its range. The
  conversions to \<^verbatim>\<open>Uint8\<close> are written out as \<open>mod 256\<close>. The \<^verbatim>\<open>float\<close>
  values are modelled as reals. Where the source has one body per platform
  (\<^verbatim>\<open>load_chunk\<close>, \<^verbatim>\<open>sound_device_play_music\<close>) the model is the default build;
  the stream over a file handle, which only the Vita and Android builds compile, is
  modelled on its own.
\<close>

subsection \<open>Faults\<close>

datatype fault =
    ChannelOutOfBounds    \<comment> \<open>\<^verbatim>\<open>data.channels[i]\<close> with \<open>i\<close> outside the table\<close>
  | FilenameOutOfBounds   \<comment> \<open>a row of the caller's \<^verbatim>\<open>filenames\<close> array that does not exist\<close>
  | NullPointer           \<comment> \<open>a null pointer is dereferenced\<close>
  | NegativeSize          \<comment> \<open>a negative \<^verbatim>\<open>int\<close> is used as a \<^verbatim>\<open>size_t\<close>\<close>
  | SignedOverflow        \<comment> \<open>signed arithmetic leaves the 32-bit range\<close>

subsection \<open>Constants and library types\<close>

definition AUDIO_RATE :: int where
  "AUDIO_RATE = 22050"

definition AUDIO_CHANNELS :: int where
  "AUDIO_CHANNELS = 2"

definition MAX_CHANNELS :: int where
  "MAX_CHANNELS = 150"

definition MIX_MAX_VOLUME :: int where
  "MIX_MAX_VOLUME = 128"

datatype SDL_AudioFormat =
    SDL_AUDIO_UNKNOWN | SDL_AUDIO_U8 | SDL_AUDIO_S8
  | SDL_AUDIO_S16LE | SDL_AUDIO_S16BE
  | SDL_AUDIO_S32LE | SDL_AUDIO_S32BE
  | SDL_AUDIO_F32LE | SDL_AUDIO_F32BE

definition AUDIO_FORMAT :: SDL_AudioFormat where
  "AUDIO_FORMAT = SDL_AUDIO_S16LE"

text \<open>\<^verbatim>\<open>SDL_AUDIO_S16\<close> is the library's name for the 16-bit format in the byte order of
  the host; the hosts of the game are little-endian.\<close>

definition SDL_AUDIO_S16 :: SDL_AudioFormat where
  "SDL_AUDIO_S16 = SDL_AUDIO_S16LE"

text \<open>\<^verbatim>\<open>SDL_AudioSpec\<close>: the fields \<^verbatim>\<open>freq\<close>, \<^verbatim>\<open>format\<close> and \<^verbatim>\<open>channels\<close>,
  in this order.\<close>

datatype SDL_AudioSpec = SDL_AudioSpec int SDL_AudioFormat int

type_synonym music_h = nat    \<comment> \<open>a non-null \<^verbatim>\<open>Mix_Music *\<close>\<close>
type_synonym chunk_h = nat    \<comment> \<open>a non-null \<^verbatim>\<open>Mix_Chunk *\<close>\<close>
type_synonym stream_h = nat   \<comment> \<open>a non-null \<^verbatim>\<open>SDL_AudioStream *\<close>\<close>
type_synonym buffer_p = nat   \<comment> \<open>a non-null \<^verbatim>\<open>Uint8 *\<close> to an output buffer\<close>
type_synonym byte = "8 word"

text \<open>The two buffers of the hook: the output buffer the mixer hands in, and the
  temporary buffer the callback allocates.\<close>

datatype buffer = Dst_buffer buffer_p | Mix_buffer

text \<open>The one function the code installs as a music hook.\<close>

datatype music_hook = Custom_music_callback

subsection \<open>The call log\<close>

text \<open>
  One constructor per library function the code calls. A call whose result the code
  reads carries that result as its last argument. The volume calls carry the value of
  \<^verbatim>\<open>percentage_to_volume(p) * MIX_MAX_VOLUME\<close>. The calls of the logging functions
  (\<^verbatim>\<open>SDL_Log\<close>, \<^verbatim>\<open>SDL_LogError\<close>, \<^verbatim>\<open>SDL_LogWarn\<close>, \<^verbatim>\<open>log_info\<close>,
  \<^verbatim>\<open>log_error\<close>) are one constructor that carries the text of the message up to its
  first format directive. \<^verbatim>\<open>memset\<close>, \<^verbatim>\<open>malloc\<close> and \<^verbatim>\<open>free\<close> on the buffers
  of the music hook are logged as well.
\<close>

datatype lib_call =
    Mix_OpenAudio SDL_AudioSpec bool
  | Mix_CloseAudio
  | Mix_AllocateChannels int
  | Mix_LoadWAV string "chunk_h option"
  | Mix_Playing int int
  | Mix_VolumeMusic real
  | Mix_VolumeChunk chunk_h real
  | Mix_LoadMUS string "music_h option"
  | Mix_PlayMusic music_h int bool
  | Mix_PlayChannel int "chunk_h option" int
  | Mix_SetPanning int int int
  | Mix_HaltMusic
  | Mix_FreeMusic music_h
  | Mix_HaltChannel int
  | Mix_FreeChunk chunk_h
  | Mix_QuerySpec
  | Mix_HookMusic "music_hook option"
  | SDL_CreateAudioStream SDL_AudioSpec SDL_AudioSpec "stream_h option"
  | SDL_DestroyAudioStream stream_h
  | SDL_PutAudioStreamData stream_h "byte list" int
  | SDL_GetAudioStreamData stream_h int int
  | SDL_MixAudio buffer_p SDL_AudioFormat int real
  | Memset_zero buffer int
  | Malloc int bool
  | Free_mix_buffer
  | Log_message string

subsection \<open>The static structs\<close>

record sound_channel =
  filename :: "string option"
  chunk :: "chunk_h option"

record sound_data =
  initialized :: int
  music :: "music_h option"
  channels :: "sound_channel list"

record custom_music_data =
  format :: SDL_AudioFormat
  dst_format :: SDL_AudioFormat
  stream :: "stream_h option"

text \<open>
  The library state the specification mentions. It is not part of the repository; it
  changes only through \<open>lib_effect\<close> below, which follows the documented meaning of the
  calls: a loaded music stays loaded until it is freed, freeing or halting stops it, an
  audio stream exists from its creation to its destruction, and the hook is the one
  installed last.
\<close>

record mixer =
  allocated_channels :: int
  music_loaded :: "music_h list"
  music_playing :: "music_h option"
  hook_installed :: "music_hook option"
  audio_streams :: "stream_h list"

record sound_state =
  data :: sound_data
  custom_music :: custom_music_data
  lib :: mixer
  calls :: "lib_call list"

fun lib_effect :: "lib_call \<Rightarrow> mixer \<Rightarrow> mixer" where
  "lib_effect (Mix_AllocateChannels n) m =
     (if n < 0 then m else m\<lparr>allocated_channels := n\<rparr>)"
| "lib_effect (Mix_LoadMUS f (Some h)) m = m\<lparr>music_loaded := h # music_loaded m\<rparr>"
| "lib_effect (Mix_PlayMusic h rep True) m = m\<lparr>music_playing := Some h\<rparr>"
| "lib_effect Mix_HaltMusic m = m\<lparr>music_playing := None\<rparr>"
| "lib_effect (Mix_FreeMusic h) m =
     m\<lparr>music_loaded := remove1 h (music_loaded m),
       music_playing := (if music_playing m = Some h then None else music_playing m)\<rparr>"
| "lib_effect Mix_CloseAudio m = m\<lparr>music_playing := None\<rparr>"
| "lib_effect (Mix_HookMusic h) m = m\<lparr>hook_installed := h\<rparr>"
| "lib_effect (SDL_CreateAudioStream src dst (Some st)) m =
     m\<lparr>audio_streams := st # audio_streams m\<rparr>"
| "lib_effect (SDL_DestroyAudioStream st) m =
     m\<lparr>audio_streams := remove1 st (audio_streams m)\<rparr>"
| "lib_effect c m = m"

text \<open>Making a library call: it is logged and the library state follows.\<close>

definition call :: "lib_call \<Rightarrow> sound_state \<Rightarrow> sound_state" where
  "call c s = s\<lparr>lib := lib_effect c (lib s), calls := calls s @ [c]\<rparr>"

text \<open>What the library answers during one operation.\<close>

record lib_env =
  r_Mix_OpenAudio :: bool
  r_SDL_GetNumAudioDrivers :: int
  r_SDL_GetAudioDeviceName :: "int \<Rightarrow> string"
  r_Mix_LoadWAV :: "string \<Rightarrow> chunk_h option"
  r_Mix_Playing :: "int \<Rightarrow> int"
  r_Mix_LoadMUS :: "string \<Rightarrow> music_h option"
  r_Mix_PlayMusic :: "music_h \<Rightarrow> bool"
  r_Mix_QuerySpec :: "int \<times> SDL_AudioFormat \<times> int"
  r_SDL_CreateAudioStream :: "SDL_AudioSpec \<Rightarrow> SDL_AudioSpec \<Rightarrow> stream_h option"
  r_SDL_PutAudioStreamData :: bool
  r_malloc :: bool
  r_SDL_GetAudioStreamData :: int
  r_setting_sound_effects_volume :: int

text \<open>The program starts with zeroed static structs and a library that holds nothing.\<close>

definition initial_state :: sound_state where
  "initial_state =
     \<lparr>data = \<lparr>initialized = 0, music = None,
              channels = replicate (nat MAX_CHANNELS) \<lparr>filename = None, chunk = None\<rparr>\<rparr>,
      custom_music = \<lparr>format = SDL_AUDIO_UNKNOWN, dst_format = SDL_AUDIO_UNKNOWN, stream = None\<rparr>,
      lib = \<lparr>allocated_channels = 0, music_loaded = [], music_playing = None,
             hook_installed = None, audio_streams = []\<rparr>,
      calls = []\<rparr>"

text \<open>The channel table has the size the declaration gives it.\<close>

definition table_ok :: "sound_state \<Rightarrow> bool" where
  "table_ok s = (int (length (channels (data s))) = MAX_CHANNELS)"

subsection \<open>Access to the channel table\<close>

definition in_table :: "sound_state \<Rightarrow> int \<Rightarrow> bool" where
  "in_table s i = (0 \<le> i \<and> i < int (length (channels (data s))))"

definition channel_at :: "sound_state \<Rightarrow> int \<Rightarrow> sound_channel" where
  "channel_at s i = channels (data s) ! nat i"

definition set_chunk_at :: "int \<Rightarrow> chunk_h option \<Rightarrow> sound_state \<Rightarrow> sound_state" where
  "set_chunk_at i c s =
     s\<lparr>data := (data s)\<lparr>channels := (channels (data s))[nat i := (channel_at s i)\<lparr>chunk := c\<rparr>]\<rparr>\<rparr>"

definition set_filename_at :: "int \<Rightarrow> string option \<Rightarrow> sound_state \<Rightarrow> sound_state" where
  "set_filename_at i f s =
     s\<lparr>data := (data s)\<lparr>channels := (channels (data s))[nat i := (channel_at s i)\<lparr>filename := f\<rparr>]\<rparr>\<rparr>"


definition set_music :: "music_h option \<Rightarrow> sound_state \<Rightarrow> sound_state" where
  "set_music m s = s\<lparr>data := (data s)\<lparr>music := m\<rparr>\<rparr>"

definition set_initialized :: "int \<Rightarrow> sound_state \<Rightarrow> sound_state" where
  "set_initialized v s = s\<lparr>data := (data s)\<lparr>initialized := v\<rparr>\<rparr>"

definition set_stream :: "stream_h option \<Rightarrow> sound_state \<Rightarrow> sound_state" where
  "set_stream st s = s\<lparr>custom_music := (custom_music s)\<lparr>stream := st\<rparr>\<rparr>"

definition set_format :: "SDL_AudioFormat \<Rightarrow> sound_state \<Rightarrow> sound_state" where
  "set_format f s = s\<lparr>custom_music := (custom_music s)\<lparr>format := f\<rparr>\<rparr>"

definition set_dst_format :: "SDL_AudioFormat \<Rightarrow> sound_state \<Rightarrow> sound_state" where
  "set_dst_format f s = s\<lparr>custom_music := (custom_music s)\<lparr>dst_format := f\<rparr>\<rparr>"

subsection \<open>Opening and closing the device\<close>

definition percentage_to_volume :: "int \<Rightarrow> real" where
  "percentage_to_volume percentage = real_of_int percentage / 100"

text \<open>\<^verbatim>\<open>for (int i = 0; i < MAX_CHANNELS; i++) data.channels[i].chunk = 0;\<close>\<close>

function init_channels_loop :: "int \<Rightarrow> sound_state \<Rightarrow> fault + sound_state" where
  "init_channels_loop i s =
     (if i < MAX_CHANNELS then
        (if in_table s i then init_channels_loop (i + 1) (set_chunk_at i None s)
         else Inl ChannelOutOfBounds)
      else Inr s)"
  by pat_completeness auto
termination
  by (relation "measure (\<lambda>(i, s). nat (MAX_CHANNELS - i))") auto

declare init_channels_loop.simps [simp del]

definition init_channels :: "sound_state \<Rightarrow> fault + sound_state" where
  "init_channels s = init_channels_loop 0 (set_initialized 1 s)"

text \<open>The loop of \<^verbatim>\<open>sound_device_open\<close> that logs the audio devices.\<close>

function log_devices_loop :: "lib_env \<Rightarrow> int \<Rightarrow> int \<Rightarrow> sound_state \<Rightarrow> sound_state" where
  "log_devices_loop env i n s =
     (if i < n
      then log_devices_loop env (i + 1) n
             (call (Log_message (''Audio device: '' @ r_SDL_GetAudioDeviceName env i)) s)
      else s)"
  by pat_completeness auto
termination
  by (relation "measure (\<lambda>(env, i, n, s). nat (n - i))") auto

declare log_devices_loop.simps [simp del]

definition sound_device_open :: "lib_env \<Rightarrow> sound_state \<Rightarrow> fault + sound_state" where
  "sound_device_open env s =
     (let spec = SDL_AudioSpec AUDIO_RATE AUDIO_FORMAT AUDIO_CHANNELS;
          ok = r_Mix_OpenAudio env;
          s1 = call (Mix_OpenAudio spec ok) s
      in if ok then init_channels s1
         else
           (let s2 = call (Log_message ''Sound failed to initialize using default driver'') s1;
                n = r_SDL_GetNumAudioDrivers env;
                s3 = call (Log_message ''Number of audio devices'') s2
            in Inr (log_devices_loop env 0 n s3)))"

definition sound_device_stop_channel :: "int \<Rightarrow> sound_state \<Rightarrow> fault + sound_state" where
  "sound_device_stop_channel channel s =
     (if initialized (data s) \<noteq> 0 then
        (if in_table s channel then
           (case chunk (channel_at s channel) of
              Some c \<Rightarrow>
                Inr (set_chunk_at channel None
                       (call (Mix_FreeChunk c) (call (Mix_HaltChannel channel) s)))
            | None \<Rightarrow> Inr s)
         else Inl ChannelOutOfBounds)
      else Inr s)"

text \<open>\<^verbatim>\<open>for (int i = 0; i < MAX_CHANNELS; i++) sound_device_stop_channel(i);\<close>\<close>

function close_loop :: "int \<Rightarrow> sound_state \<Rightarrow> fault + sound_state" where
  "close_loop i s =
     (if i < MAX_CHANNELS then
        (case sound_device_stop_channel i s of
           Inl e \<Rightarrow> Inl e
         | Inr s' \<Rightarrow> close_loop (i + 1) s')
      else Inr s)"
  by pat_completeness auto
termination
  by (relation "measure (\<lambda>(i, s). nat (MAX_CHANNELS - i))") auto

declare close_loop.simps [simp del]

definition sound_device_close :: "sound_state \<Rightarrow> fault + sound_state" where
  "sound_device_close s =
     (if initialized (data s) \<noteq> 0 then
        (case close_loop 0 s of
           Inl e \<Rightarrow> Inl e
         | Inr s1 \<Rightarrow> Inr (set_initialized 0 (call Mix_CloseAudio s1)))
      else Inr s)"

subsection \<open>Loading sound effects\<close>

text \<open>The default build: \<^verbatim>\<open>Mix_LoadWAV(filename)\<close> for a non-empty name.\<close>

definition load_chunk :: "lib_env \<Rightarrow> string \<Rightarrow> sound_state \<Rightarrow> chunk_h option \<times> sound_state" where
  "load_chunk env fname s =
     (if fname \<noteq> [] then
        (let r = r_Mix_LoadWAV env fname in (r, call (Mix_LoadWAV fname r) s))
      else (None, s))"

text \<open>\<^verbatim>\<open>load_channel\<close> gets a pointer to a slot of the table; the model passes the index
  the pointer was made from.\<close>

definition load_channel :: "lib_env \<Rightarrow> int \<Rightarrow> sound_state \<Rightarrow> fault + (int \<times> sound_state)" where
  "load_channel env i s =
     (if in_table s i then
        (let ch = channel_at s i;
             s1 = (case (chunk ch, filename ch) of
                     (None, Some f) \<Rightarrow>
                       (let (c, s') = load_chunk env f s in set_chunk_at i c s')
                   | _ \<Rightarrow> s)
         in Inr (if chunk (channel_at s1 i) \<noteq> None then 1 else 0, s1))
      else Inl ChannelOutOfBounds)"

text \<open>
  The loop of \<^verbatim>\<open>sound_device_init_channels\<close>. A row of \<^verbatim>\<open>filenames\<close> is a
  NUL-terminated string; the slot keeps a pointer to a non-empty row and a null pointer
  for an empty one. The model stores the row's text.
\<close>

function init_filenames_loop ::
  "string list \<Rightarrow> int \<Rightarrow> int \<Rightarrow> sound_state \<Rightarrow> fault + sound_state" where
  "init_filenames_loop filenames i n s =
     (if i < n then
        (if \<not> in_table s i then Inl ChannelOutOfBounds
         else if \<not> (0 \<le> i \<and> nat i < length filenames) then Inl FilenameOutOfBounds
         else init_filenames_loop filenames (i + 1) n
                (set_filename_at i
                   (if filenames ! nat i \<noteq> [] then Some (filenames ! nat i) else None)
                   (set_chunk_at i None s)))
      else Inr s)"
  by pat_completeness auto
termination
  by (relation "measure (\<lambda>(filenames, i, n, s). nat (n - i))") auto

declare init_filenames_loop.simps [simp del]

definition sound_device_init_channels ::
  "int \<Rightarrow> string list \<Rightarrow> sound_state \<Rightarrow> fault + sound_state" where
  "sound_device_init_channels num_channels filenames s =
     (if initialized (data s) \<noteq> 0 then
        (let n = (if num_channels > MAX_CHANNELS then MAX_CHANNELS else num_channels);
             s1 = call (Mix_AllocateChannels n) s;
             s2 = call (Log_message ''Loading audio files'') s1
         in init_filenames_loop filenames 0 n s2)
      else Inr s)"

subsection \<open>Channel operations\<close>

definition sound_device_is_channel_playing ::
  "lib_env \<Rightarrow> int \<Rightarrow> sound_state \<Rightarrow> fault + (int \<times> sound_state)" where
  "sound_device_is_channel_playing env channel s =
     (if in_table s channel then
        (case chunk (channel_at s channel) of
           Some c \<Rightarrow>
             (let r = r_Mix_Playing env channel
              in Inr (if r \<noteq> 0 then 1 else 0, call (Mix_Playing channel r) s))
         | None \<Rightarrow> Inr (0, s))
      else Inl ChannelOutOfBounds)"

definition sound_device_set_music_volume :: "int \<Rightarrow> sound_state \<Rightarrow> sound_state" where
  "sound_device_set_music_volume volume_pct s =
     call (Mix_VolumeMusic (percentage_to_volume volume_pct * real_of_int MIX_MAX_VOLUME)) s"

definition sound_device_set_channel_volume ::
  "int \<Rightarrow> int \<Rightarrow> sound_state \<Rightarrow> fault + sound_state" where
  "sound_device_set_channel_volume channel volume_pct s =
     (if in_table s channel then
        (case chunk (channel_at s channel) of
           Some c \<Rightarrow>
             Inr (call (Mix_VolumeChunk c
                         (percentage_to_volume volume_pct * real_of_int MIX_MAX_VOLUME)) s)
         | None \<Rightarrow> Inr s)
      else Inl ChannelOutOfBounds)"

subsection \<open>Music\<close>

definition sound_device_stop_music :: "sound_state \<Rightarrow> sound_state" where
  "sound_device_stop_music s =
     (if initialized (data s) \<noteq> 0 then
        (case music (data s) of
           Some m \<Rightarrow> set_music None (call (Mix_FreeMusic m) (call Mix_HaltMusic s))
         | None \<Rightarrow> s)
      else s)"

text \<open>
  The default build (\<^verbatim>\<open>Mix_LoadMUS(filename)\<close>). The result is
  \<^verbatim>\<open>data.music ? 1 : 0\<close>, read from the state the function leaves.
\<close>

definition sound_device_play_music ::
  "lib_env \<Rightarrow> string option \<Rightarrow> int \<Rightarrow> sound_state \<Rightarrow> int \<times> sound_state" where
  "sound_device_play_music env fname volume_pct s =
     (if initialized (data s) \<noteq> 0 then
        (let s1 = sound_device_stop_music s in
         case fname of
           None \<Rightarrow> (0, s1)
         | Some f \<Rightarrow>
             (let r = r_Mix_LoadMUS env f;
                  s2 = set_music r (call (Mix_LoadMUS f r) s1);
                  s3 = (case music (data s2) of
                          None \<Rightarrow> call (Log_message ''Error opening music file'') s2
                        | Some m \<Rightarrow>
                            (let ok = r_Mix_PlayMusic env m;
                                 s' = call (Mix_PlayMusic m (- 1) ok) s2
                             in if \<not> ok
                                then call (Log_message ''Error playing music file'')
                                       (set_music None s')
                                else sound_device_set_music_volume volume_pct s'))
              in (if music (data s3) \<noteq> None then 1 else 0, s3)))
      else (0, s))"

subsection \<open>Playing sound effects\<close>

definition sound_device_play_file_on_channel ::
  "lib_env \<Rightarrow> string option \<Rightarrow> int \<Rightarrow> int \<Rightarrow> sound_state \<Rightarrow> fault + sound_state" where
  "sound_device_play_file_on_channel env fname channel volume_pct s =
     (if initialized (data s) \<noteq> 0 then
        (case sound_device_stop_channel channel s of
           Inl e \<Rightarrow> Inl e
         | Inr s1 \<Rightarrow>
             (case fname of
                None \<Rightarrow> Inl NullPointer
              | Some f \<Rightarrow>
                  (let (c, s2) = load_chunk env f s1 in
                   if \<not> in_table s2 channel then Inl ChannelOutOfBounds
                   else
                     (let s3 = set_chunk_at channel c s2 in
                      case chunk (channel_at s3 channel) of
                        Some ck \<Rightarrow>
                          (case sound_device_set_channel_volume channel volume_pct s3 of
                             Inl e \<Rightarrow> Inl e
                           | Inr s4 \<Rightarrow>
                               Inr (call (Mix_PlayChannel channel
                                            (chunk (channel_at s4 channel)) 0) s4))
                      | None \<Rightarrow> Inr s3))))
      else Inr s)"

definition sound_device_play_channel ::
  "lib_env \<Rightarrow> int \<Rightarrow> int \<Rightarrow> sound_state \<Rightarrow> fault + sound_state" where
  "sound_device_play_channel env channel volume_pct s =
     (if initialized (data s) \<noteq> 0 then
        (case load_channel env channel s of
           Inl e \<Rightarrow> Inl e
         | Inr (loaded, s1) \<Rightarrow>
             (if loaded \<noteq> 0 then
                (case sound_device_set_channel_volume channel volume_pct s1 of
                   Inl e \<Rightarrow> Inl e
                 | Inr s2 \<Rightarrow>
                     Inr (call (Mix_PlayChannel channel (chunk (channel_at s2 channel)) 0) s2))
              else Inr s1))
      else Inr s)"

text \<open>C division truncates towards zero; a product outside the range of \<^verbatim>\<open>int\<close> is
  undefined. The panning arguments are \<^verbatim>\<open>Uint8\<close>.\<close>

definition c_div :: "int \<Rightarrow> int \<Rightarrow> int" where
  "c_div a b = sgn a * sgn b * (\<bar>a\<bar> div \<bar>b\<bar>)"

definition int_range :: "int \<Rightarrow> bool" where
  "int_range v = (- 2147483648 \<le> v \<and> v \<le> 2147483647)"

definition Uint8 :: "int \<Rightarrow> int" where
  "Uint8 v = v mod 256"

definition sound_device_play_channel_panned ::
  "lib_env \<Rightarrow> int \<Rightarrow> int \<Rightarrow> int \<Rightarrow> int \<Rightarrow> sound_state \<Rightarrow> fault + sound_state" where
  "sound_device_play_channel_panned env channel volume_pct left_pct right_pct s =
     (if initialized (data s) \<noteq> 0 then
        (case load_channel env channel s of
           Inl e \<Rightarrow> Inl e
         | Inr (loaded, s1) \<Rightarrow>
             (if loaded \<noteq> 0 then
                (if \<not> (int_range (left_pct * 255) \<and> int_range (right_pct * 255))
                 then Inl SignedOverflow
                 else
                   (let s2 = call (Mix_SetPanning channel
                                     (Uint8 (c_div (left_pct * 255) 100))
                                     (Uint8 (c_div (right_pct * 255) 100))) s1
                    in case sound_device_set_channel_volume channel volume_pct s2 of
                         Inl e \<Rightarrow> Inl e
                       | Inr s3 \<Rightarrow>
                           Inr (call (Mix_PlayChannel channel
                                        (chunk (channel_at s3 channel)) 0) s3)))
              else Inr s1))
      else Inr s)"

subsection \<open>The custom music player\<close>

definition free_custom_audio_stream :: "sound_state \<Rightarrow> sound_state" where
  "free_custom_audio_stream s =
     (case stream (custom_music s) of
        Some st \<Rightarrow> set_stream None (call (SDL_DestroyAudioStream st) s)
      | None \<Rightarrow> s)"

text \<open>The channel counts are \<^verbatim>\<open>Uint8\<close> parameters: the arguments are converted when
  the function is entered.\<close>

definition create_custom_audio_stream ::
  "lib_env \<Rightarrow> SDL_AudioFormat \<Rightarrow> int \<Rightarrow> int \<Rightarrow> SDL_AudioFormat \<Rightarrow> int \<Rightarrow> int \<Rightarrow>
   sound_state \<Rightarrow> int \<times> sound_state" where
  "create_custom_audio_stream env src_format src_channels src_rate
                              dst_fmt dst_channels dst_rate s =
     (let s1 = free_custom_audio_stream s;
          s2 = set_dst_format dst_fmt s1;
          src_spec = SDL_AudioSpec src_rate src_format (Uint8 src_channels);
          dst_spec = SDL_AudioSpec dst_rate dst_fmt (Uint8 dst_channels);
          r = r_SDL_CreateAudioStream env src_spec dst_spec;
          s3 = set_stream r (call (SDL_CreateAudioStream src_spec dst_spec r) s2)
      in (if stream (custom_music s3) \<noteq> None then 1 else 0, s3))"

definition custom_audio_stream_active :: "sound_state \<Rightarrow> int" where
  "custom_audio_stream_active s = (if stream (custom_music s) \<noteq> None then 1 else 0)"

definition put_custom_audio_stream ::
  "lib_env \<Rightarrow> byte list option \<Rightarrow> int \<Rightarrow> sound_state \<Rightarrow> int \<times> sound_state" where
  "put_custom_audio_stream env audio_data len s =
     (case (audio_data, stream (custom_music s)) of
        (Some bytes, Some st) \<Rightarrow>
          (if len \<le> 0 then (0, s)
           else (if r_SDL_PutAudioStreamData env then 0 else 1,
                 call (SDL_PutAudioStreamData st bytes len) s))
      | _ \<Rightarrow> (0, s))"

text \<open>
  The hook's worker. \<^verbatim>\<open>memset(dst, 0, len)\<close> runs before any check, so a null
  \<^verbatim>\<open>dst\<close> or a negative \<^verbatim>\<open>len\<close> is a fault. The early return after
  \<^verbatim>\<open>SDL_GetAudioStreamData\<close> does not free the temporary buffer.
\<close>

definition get_custom_audio_stream ::
  "lib_env \<Rightarrow> buffer_p option \<Rightarrow> int \<Rightarrow> sound_state \<Rightarrow> fault + (int \<times> sound_state)" where
  "get_custom_audio_stream env dst len s =
     (case dst of
        None \<Rightarrow> Inl NullPointer
      | Some d \<Rightarrow>
          (if len < 0 then Inl NegativeSize
           else
             (let s1 = call (Memset_zero (Dst_buffer d) len) s in
              case stream (custom_music s1) of
                None \<Rightarrow> Inr (0, s1)
              | Some st \<Rightarrow>
                  (if len \<le> 0 then Inr (0, s1)
                   else
                     (let ok = r_malloc env;
                          s2 = call (Malloc len ok) s1
                      in if \<not> ok then Inr (0, s2)
                         else
                           (let s3 = call (Memset_zero Mix_buffer len) s2;
                                bytes_copied = r_SDL_GetAudioStreamData env;
                                s4 = call (SDL_GetAudioStreamData st len bytes_copied) s3
                            in if bytes_copied \<le> 0 then Inr (0, s4)
                               else
                                 (let s5 = call (SDL_MixAudio d (dst_format (custom_music s4))
                                                   bytes_copied
                                                   (percentage_to_volume
                                                      (r_setting_sound_effects_volume env))) s4;
                                      s6 = call Free_mix_buffer s5
                                  in Inr (bytes_copied, s6))))))))"

definition custom_music_callback ::
  "lib_env \<Rightarrow> buffer_p option \<Rightarrow> int \<Rightarrow> sound_state \<Rightarrow> fault + sound_state" where
  "custom_music_callback env strm len s =
     (case get_custom_audio_stream env strm len s of
        Inl e \<Rightarrow> Inl e
      | Inr (n, s') \<Rightarrow> Inr s')"

definition sound_device_write_custom_music_data ::
  "lib_env \<Rightarrow> byte list option \<Rightarrow> int \<Rightarrow> sound_state \<Rightarrow> sound_state" where
  "sound_device_write_custom_music_data env audio_data len s =
     (if audio_data = None \<or> len \<le> 0 \<or> custom_audio_stream_active s = 0 then s
      else snd (put_custom_audio_stream env audio_data len s))"

definition sound_device_use_custom_music_player ::
  "lib_env \<Rightarrow> int \<Rightarrow> int \<Rightarrow> int \<Rightarrow> byte list option \<Rightarrow> int \<Rightarrow> sound_state \<Rightarrow> sound_state" where
  "sound_device_use_custom_music_player env bitdepth num_channels rate audio_data len s =
     (case (if bitdepth = 8 then Some SDL_AUDIO_U8
            else if bitdepth = 16 then Some SDL_AUDIO_S16
            else None) of
        None \<Rightarrow> call (Log_message ''Custom music bitdepth not supported:'') s
      | Some fmt \<Rightarrow>
          (let (device_rate, device_format, device_channels) = r_Mix_QuerySpec env;
               s1 = call Mix_QuerySpec s;
               s2 = set_format fmt s1;
               (result, s3) = create_custom_audio_stream env fmt num_channels rate
                                device_format device_channels device_rate s2
           in if result = 0 then s3
              else call (Mix_HookMusic (Some Custom_music_callback))
                     (sound_device_write_custom_music_data env audio_data len s3)))"

definition sound_device_use_default_music_player :: "sound_state \<Rightarrow> sound_state" where
  "sound_device_use_default_music_player s =
     free_custom_audio_stream (call (Mix_HookMusic None) s)"

text \<open>Running the installed hook, as the mixer does when it needs music samples.\<close>

fun run_hook ::
  "music_hook \<Rightarrow> lib_env \<Rightarrow> buffer_p option \<Rightarrow> int \<Rightarrow> sound_state \<Rightarrow> fault + sound_state" where
  "run_hook Custom_music_callback env strm len s = custom_music_callback env strm len s"

subsection \<open>The public operations as a datatype\<close>

datatype sound_op =
    Open
  | Close
  | Init_channels int "string list"
  | Is_channel_playing int
  | Set_music_volume int
  | Set_channel_volume int int
  | Play_music "string option" int
  | Play_file_on_channel "string option" int int
  | Play_channel int int
  | Play_channel_panned int int int int
  | Stop_music
  | Stop_channel int
  | Use_custom_music_player int int int "byte list option" int
  | Write_custom_music_data "byte list option" int
  | Use_default_music_player
  | Mixer_runs_hook "buffer_p option" int

fun exec :: "lib_env \<Rightarrow> sound_op \<Rightarrow> sound_state \<Rightarrow> fault + sound_state" where
  "exec env Open s = sound_device_open env s"
| "exec env Close s = sound_device_close s"
| "exec env (Init_channels n fs) s = sound_device_init_channels n fs s"
| "exec env (Is_channel_playing c) s =
     (case sound_device_is_channel_playing env c s of
        Inl e \<Rightarrow> Inl e | Inr (r, s') \<Rightarrow> Inr s')"
| "exec env (Set_music_volume v) s = Inr (sound_device_set_music_volume v s)"
| "exec env (Set_channel_volume c v) s = sound_device_set_channel_volume c v s"
| "exec env (Play_music f v) s = Inr (snd (sound_device_play_music env f v s))"
| "exec env (Play_file_on_channel f c v) s = sound_device_play_file_on_channel env f c v s"
| "exec env (Play_channel c v) s = sound_device_play_channel env c v s"
| "exec env (Play_channel_panned c v l r) s = sound_device_play_channel_panned env c v l r s"
| "exec env Stop_music s = Inr (sound_device_stop_music s)"
| "exec env (Stop_channel c) s = sound_device_stop_channel c s"
| "exec env (Use_custom_music_player b n r d l) s =
     Inr (sound_device_use_custom_music_player env b n r d l s)"
| "exec env (Write_custom_music_data d l) s =
     Inr (sound_device_write_custom_music_data env d l s)"
| "exec env Use_default_music_player s = Inr (sound_device_use_default_music_player s)"
| "exec env (Mixer_runs_hook d l) s =
     (case hook_installed (lib s) of
        None \<Rightarrow> Inr s
      | Some h \<Rightarrow> run_hook h env d l s)"

text \<open>A run of the program: operations in sequence, each with the library's answers;
  a fault ends the run.\<close>

fun run :: "(lib_env \<times> sound_op) list \<Rightarrow> sound_state \<Rightarrow> fault + sound_state" where
  "run [] s = Inr s"
| "run ((env, opn) # rest) s =
     (case exec env opn s of Inl e \<Rightarrow> Inl e | Inr s' \<Rightarrow> run rest s')"

subsection \<open>The stream over a \<^verbatim>\<open>FILE *\<close> (Vita and Android builds)\<close>

text \<open>
  \<^verbatim>\<open>SDL_IO_SEEK_SET\<close>, \<^verbatim>\<open>SDL_IO_SEEK_CUR\<close> and \<^verbatim>\<open>SDL_IO_SEEK_END\<close> are the three
  values of the library's enumeration, in this order. The \<^verbatim>\<open>whence\<close> values of stdio
  are a datatype. The conversion \<^verbatim>\<open>(fseek_off_t) offset\<close> is a macro of the platform
  and a field of the environment, as are the results of stdio. The texts given to
  \<^verbatim>\<open>SDL_SetError\<close> are the source's, without the quotes around \<^verbatim>\<open>whence\<close> in the
  first. \<^verbatim>\<open>stdio_read\<close> and \<^verbatim>\<open>stdio_write\<close> only appear as entries of the interface.
\<close>

definition SDL_IO_SEEK_SET :: int where
  "SDL_IO_SEEK_SET = 0"

definition SDL_IO_SEEK_CUR :: int where
  "SDL_IO_SEEK_CUR = 1"

definition SDL_IO_SEEK_END :: int where
  "SDL_IO_SEEK_END = 2"

datatype stdio_whence = SEEK_SET | SEEK_CUR | SEEK_END

type_synonym file_p = nat   \<comment> \<open>a \<^verbatim>\<open>FILE *\<close>\<close>

record IOStreamStdioFPData =
  fp :: file_p
  autoclose :: bool

datatype io_callback = Stdio_seek | Stdio_read | Stdio_write | Stdio_close

record SDL_IOStreamInterface =
  iface_seek :: "io_callback option"
  iface_read :: "io_callback option"
  iface_write :: "io_callback option"
  iface_close :: "io_callback option"

type_synonym io_stream = nat   \<comment> \<open>a non-null \<^verbatim>\<open>SDL_IOStream *\<close>\<close>

datatype stdio_call =
    Fseek file_p int stdio_whence int
  | Ftell file_p int
  | Fclose file_p int
  | SDL_SetError string
  | SDL_malloc bool
  | SDL_OpenIO SDL_IOStreamInterface IOStreamStdioFPData "io_stream option"

record stdio_env =
  fseek_off_t :: "int \<Rightarrow> int"
  r_fseek :: "file_p \<Rightarrow> int \<Rightarrow> stdio_whence \<Rightarrow> int"
  r_ftell :: "file_p \<Rightarrow> int"
  r_fclose :: "file_p \<Rightarrow> int"
  r_SDL_malloc :: bool
  r_SDL_OpenIO :: "io_stream option"

definition stdio_seek ::
  "stdio_env \<Rightarrow> IOStreamStdioFPData \<Rightarrow> int \<Rightarrow> int \<Rightarrow> stdio_call list \<Rightarrow> int \<times> stdio_call list" where
  "stdio_seek env userdata offset whence tr =
     (case (if whence = SDL_IO_SEEK_SET then Some SEEK_SET
            else if whence = SDL_IO_SEEK_CUR then Some SEEK_CUR
            else if whence = SDL_IO_SEEK_END then Some SEEK_END
            else None) of
        None \<Rightarrow> (- 1, tr @ [SDL_SetError ''Unknown value for whence''])
      | Some stdiowhence \<Rightarrow>
          (let r = r_fseek env (fp userdata) (fseek_off_t env offset) stdiowhence;
               tr1 = tr @ [Fseek (fp userdata) (fseek_off_t env offset) stdiowhence r]
           in if r = 0 then
                (let pos = r_ftell env (fp userdata);
                     tr2 = tr1 @ [Ftell (fp userdata) pos]
                 in if pos < 0
                    then (- 1, tr2 @ [SDL_SetError ''Couldn't get stream offset''])
                    else (pos, tr2))
              else (- 1, tr1 @ [SDL_SetError ''Couldn't seek in stream''])))"

definition stdio_close ::
  "stdio_env \<Rightarrow> IOStreamStdioFPData \<Rightarrow> stdio_call list \<Rightarrow> bool \<times> stdio_call list" where
  "stdio_close env userdata tr =
     (if autoclose userdata then
        (let r = r_fclose env (fp userdata);
             tr1 = tr @ [Fclose (fp userdata) r]
         in if r \<noteq> 0 then (False, tr1 @ [SDL_SetError ''Couldn't close stream''])
            else (True, tr1))
      else (True, tr))"

definition SDL_RWFromFP ::
  "stdio_env \<Rightarrow> file_p \<Rightarrow> bool \<Rightarrow> stdio_call list \<Rightarrow> io_stream option \<times> stdio_call list" where
  "SDL_RWFromFP env file auto tr =
     (let ok = r_SDL_malloc env;
          tr1 = tr @ [SDL_malloc ok]
      in if \<not> ok then (None, tr1)
         else
           (let iface = \<lparr>iface_seek = Some Stdio_seek, iface_read = Some Stdio_read,
                          iface_write = Some Stdio_write, iface_close = Some Stdio_close\<rparr>;
                rwopsdata = \<lparr>fp = file, autoclose = auto\<rparr>;
                rwops = r_SDL_OpenIO env;
                tr2 = tr1 @ [SDL_OpenIO iface rwopsdata rwops]
            in case rwops of
                 None \<Rightarrow> (None, snd (stdio_close env rwopsdata tr2))
               | Some strm \<Rightarrow> (Some strm, tr2)))"

text \<open>What the library does when a stream opened with this interface is asked to seek:
  it calls the \<^verbatim>\<open>seek\<close> entry with the stream's user data.\<close>

fun io_seek ::
  "io_callback option \<Rightarrow> stdio_env \<Rightarrow> IOStreamStdioFPData \<Rightarrow> int \<Rightarrow> int \<Rightarrow> stdio_call list \<Rightarrow>
   int \<times> stdio_call list" where
  "io_seek (Some Stdio_seek) env userdata offset whence tr =
     stdio_seek env userdata offset whence tr"
| "io_seek cb env userdata offset whence tr = (- 1, tr)"

subsection \<open>Relative mouse mode\<close>

text \<open>
  The static struct of \<^verbatim>\<open>mouse.c\<close>; its fields are \<^verbatim>\<open>x\<close>, \<^verbatim>\<open>y\<close> and
  \<^verbatim>\<open>enabled\<close>. The callers' \<^verbatim>\<open>int *\<close> arguments are addresses into \<open>memory\<close>,
  with \<open>None\<close> for a null pointer. The readings that successive calls of
  \<^verbatim>\<open>SDL_GetRelativeMouseState\<close> will return are a list in the state: a call takes the
  first of them. \<^verbatim>\<open>calc_percentage\<close>, \<^verbatim>\<open>calc_adjust_with_percentage\<close>,
  \<^verbatim>\<open>platform_screen_get_scale\<close>, \<^verbatim>\<open>system_set_mouse_position\<close> and
  \<^verbatim>\<open>mouse_get\<close> are declared in headers whose source files are not among the
  sources; they are fields of the environment. \<^verbatim>\<open>system_set_mouse_position\<close> gets
  pointers to the coordinates and may change them, so its field maps the coordinates
  passed in to the coordinates it leaves.
\<close>

record mouse_data =
  data_x :: int
  data_y :: int
  data_enabled :: int

type_synonym window = nat    \<comment> \<open>a non-null \<^verbatim>\<open>SDL_Window *\<close>\<close>
type_synonym int_p = nat     \<comment> \<open>a non-null \<^verbatim>\<open>int *\<close>\<close>

datatype mouse_call =
    SDL_GetRelativeMouseState
  | SDL_GetMouseFocus
  | SDL_GetMouseState
  | SDL_SetWindowRelativeMouseMode "window option" bool
  | System_set_mouse_position int int
  | Mouse_set_position int int

record mouse_env =
  r_SDL_GetMouseFocus :: "window option"
  r_SDL_GetMouseState :: "real \<times> real"
  platform_screen_get_scale :: int
  calc_percentage :: "int \<Rightarrow> int \<Rightarrow> int"
  calc_adjust_with_percentage :: "int \<Rightarrow> int \<Rightarrow> int"
  system_set_mouse_position :: "int \<times> int \<Rightarrow> int \<times> int"
  mouse_get :: "int \<times> int"

record mouse_state =
  mouse :: mouse_data
  memory :: "int_p \<Rightarrow> int"
  relative_readings :: "(real \<times> real) list"
  mouse_calls :: "mouse_call list"

text \<open>The conversion \<^verbatim>\<open>(int) f\<close> of a float drops the fraction. (It is undefined for a
  value outside the range of \<^verbatim>\<open>int\<close>; cursor coordinates are far from it.)\<close>

definition int_of_float :: "real \<Rightarrow> int" where
  "int_of_float f = (if 0 \<le> f then \<lfloor>f\<rfloor> else \<lceil>f\<rceil>)"

definition mouse_call :: "mouse_call \<Rightarrow> mouse_state \<Rightarrow> mouse_state" where
  "mouse_call c s = s\<lparr>mouse_calls := mouse_calls s @ [c]\<rparr>"

definition system_mouse_get_relative_state ::
  "int_p option \<Rightarrow> int_p option \<Rightarrow> mouse_state \<Rightarrow> mouse_state" where
  "system_mouse_get_relative_state x y s =
     (case (x, y) of
        (Some px, Some py) \<Rightarrow>
          (let (fx, fy) = (case relative_readings s of [] \<Rightarrow> (0, 0) | r # rest \<Rightarrow> r);
               s1 = mouse_call SDL_GetRelativeMouseState
                      (s\<lparr>relative_readings := tl (relative_readings s)\<rparr>);
               s2 = s1\<lparr>memory := (memory s1)(px := int_of_float fx)\<rparr>
           in s2\<lparr>memory := (memory s2)(py := int_of_float fy)\<rparr>)
      | _ \<Rightarrow> s)"

definition system_mouse_set_relative_mode :: "mouse_env \<Rightarrow> int \<Rightarrow> mouse_state \<Rightarrow> mouse_state" where
  "system_mouse_set_relative_mode env enabled s =
     (if enabled = data_enabled (mouse s) then s
      else
        (let window = r_SDL_GetMouseFocus env;
             s0 = mouse_call SDL_GetMouseFocus s;
             s' =
               (if enabled \<noteq> 0 then
                  (let (fx, fy) = r_SDL_GetMouseState env;
                       s1 = mouse_call SDL_GetMouseState s0;
                       s2 = s1\<lparr>mouse := (mouse s1)\<lparr>data_x := int_of_float fx\<rparr>\<rparr>;
                       s3 = s2\<lparr>mouse := (mouse s2)\<lparr>data_y := int_of_float fy\<rparr>\<rparr>;
                       scale_percentage = calc_percentage env 100 (platform_screen_get_scale env);
                       s4 = s3\<lparr>mouse := (mouse s3)\<lparr>data_x :=
                              calc_adjust_with_percentage env (data_x (mouse s3)) scale_percentage\<rparr>\<rparr>;
                       s5 = s4\<lparr>mouse := (mouse s4)\<lparr>data_y :=
                              calc_adjust_with_percentage env (data_y (mouse s4)) scale_percentage\<rparr>\<rparr>;
                       s6 = mouse_call (SDL_SetWindowRelativeMouseMode window True) s5
                   in system_mouse_get_relative_state None None s6)
                else
                  (let s1 = mouse_call (SDL_SetWindowRelativeMouseMode window False) s0;
                       (nx, ny) = system_set_mouse_position env (data_x (mouse s1), data_y (mouse s1));
                       s2 = mouse_call (System_set_mouse_position (data_x (mouse s1)) (data_y (mouse s1))) s1;
                       s3 = s2\<lparr>mouse := (mouse s2)\<lparr>data_x := nx, data_y := ny\<rparr>\<rparr>
                   in mouse_call (Mouse_set_position (data_x (mouse s3)) (data_y (mouse s3))) s3))
         in s'\<lparr>mouse := (mouse s')\<lparr>data_enabled := enabled\<rparr>\<rparr>))"

definition system_move_mouse_cursor :: "mouse_env \<Rightarrow> int \<Rightarrow> int \<Rightarrow> mouse_state \<Rightarrow> mouse_state" where
  "system_move_mouse_cursor env delta_x delta_y s =
     (let x = fst (mouse_get env) + delta_x;
          y = snd (mouse_get env) + delta_y;
          (nx, ny) = system_set_mouse_position env (x, y);
          s1 = mouse_call (System_set_mouse_position x y) s
      in mouse_call (Mouse_set_position nx ny) s1)"

subsection \<open>Invariants and frames\<close>

text \<open>
  The two bookkeeping invariants of the specification. \<open>music_inv\<close>: the only track
  that can be playing is the one the stored handle refers to, and a stored handle refers
  to a track that is loaded. \<open>stream_inv\<close>: the audio streams that exist are exactly
  the one the custom-music struct points to, or none.
\<close>

definition music_inv :: "sound_state \<Rightarrow> bool" where
  "music_inv s \<longleftrightarrow>
     (music_playing (lib s) = None \<or> music_playing (lib s) = music (data s))
     \<and> (case music (data s) of None \<Rightarrow> True | Some h \<Rightarrow> h \<in> set (music_loaded (lib s)))"

definition stream_inv :: "sound_state \<Rightarrow> bool" where
  "stream_inv s \<longleftrightarrow>
     audio_streams (lib s) = (case stream (custom_music s) of None \<Rightarrow> [] | Some st \<Rightarrow> [st])"

text \<open>An operation that takes a channel number is given one inside the table.\<close>

fun channel_args_ok :: "sound_op \<Rightarrow> bool" where
  "channel_args_ok (Is_channel_playing c) = (0 \<le> c \<and> c < MAX_CHANNELS)"
| "channel_args_ok (Set_channel_volume c v) = (0 \<le> c \<and> c < MAX_CHANNELS)"
| "channel_args_ok (Play_file_on_channel f c v) = (0 \<le> c \<and> c < MAX_CHANNELS)"
| "channel_args_ok (Play_channel c v) = (0 \<le> c \<and> c < MAX_CHANNELS)"
| "channel_args_ok (Play_channel_panned c v l r) = (0 \<le> c \<and> c < MAX_CHANNELS)"
| "channel_args_ok (Stop_channel c) = (0 \<le> c \<and> c < MAX_CHANNELS)"
| "channel_args_ok opn = True"

text \<open>
  Three relations between the state before and after an operation, used to carry the
  invariants through the operations: \<open>keeps\<close> for operations on channels (they may stop
  the music but touch neither the music handle nor the streams), \<open>music_frame\<close> for the
  music operations and \<open>custom_frame\<close> for the custom-music operations. A library call is
  \<open>neutral\<close> when it is none of the calls that load, start or free music, create or
  destroy a stream, or install a hook.
\<close>

definition keeps :: "sound_state \<Rightarrow> sound_state \<Rightarrow> bool" where
  "keeps s s' \<longleftrightarrow>
     length (channels (data s')) = length (channels (data s))
     \<and> music (data s') = music (data s)
     \<and> custom_music s' = custom_music s
     \<and> music_loaded (lib s') = music_loaded (lib s)
     \<and> audio_streams (lib s') = audio_streams (lib s)
     \<and> hook_installed (lib s') = hook_installed (lib s)
     \<and> (music_playing (lib s') = music_playing (lib s) \<or> music_playing (lib s') = None)"

fun neutral :: "lib_call \<Rightarrow> bool" where
  "neutral (Mix_LoadMUS f r) = False"
| "neutral (Mix_PlayMusic h l ok) = False"
| "neutral (Mix_FreeMusic h) = False"
| "neutral (Mix_HookMusic h) = False"
| "neutral (SDL_CreateAudioStream a b r) = False"
| "neutral (SDL_DestroyAudioStream st) = False"
| "neutral c = True"

definition music_frame :: "sound_state \<Rightarrow> sound_state \<Rightarrow> bool" where
  "music_frame s s' \<longleftrightarrow>
     channels (data s') = channels (data s)
     \<and> initialized (data s') = initialized (data s)
     \<and> custom_music s' = custom_music s
     \<and> audio_streams (lib s') = audio_streams (lib s)
     \<and> hook_installed (lib s') = hook_installed (lib s)"

definition custom_frame :: "sound_state \<Rightarrow> sound_state \<Rightarrow> bool" where
  "custom_frame s s' \<longleftrightarrow>
     data s' = data s
     \<and> music_loaded (lib s') = music_loaded (lib s)
     \<and> music_playing (lib s') = music_playing (lib s)"

text \<open>The state a run leaves when started from the initial state.\<close>

definition after :: "(lib_env \<times> sound_op) list \<Rightarrow> sound_state" where
  "after ops = (case run ops initial_state of Inl e \<Rightarrow> initial_state | Inr s \<Rightarrow> s)"

subsection \<open>Concrete environments and states\<close>

text \<open>
  The inputs the theorems below are instantiated with: a library in which every call
  succeeds (\<open>env_ok\<close>) and one in which music cannot be started (\<open>env_no_play\<close>); a
  mouse environment with a screen scale of 200 percent, whose helpers are the ones of the
  game (\<^verbatim>\<open>calc_percentage\<close> and \<^verbatim>\<open>calc_adjust_with_percentage\<close> divide as C does), and a
  mouse state with two pending relative readings; a stdio in which seeking backwards
  from the current position fails; an array of 200 file names of which the last 100 are
  empty; and sequences of operations.
\<close>

definition env_ok :: lib_env where
  "env_ok =
     \<lparr>r_Mix_OpenAudio = True,
      r_SDL_GetNumAudioDrivers = 0,
      r_SDL_GetAudioDeviceName = (\<lambda>i. ''dummy''),
      r_Mix_LoadWAV = (\<lambda>f. Some 7),
      r_Mix_Playing = (\<lambda>c. 1),
      r_Mix_LoadMUS = (\<lambda>f. Some 3),
      r_Mix_PlayMusic = (\<lambda>m. True),
      r_Mix_QuerySpec = (22050, SDL_AUDIO_S16LE, 2),
      r_SDL_CreateAudioStream = (\<lambda>a b. Some 5),
      r_SDL_PutAudioStreamData = True,
      r_malloc = True,
      r_SDL_GetAudioStreamData = 64,
      r_setting_sound_effects_volume = 100\<rparr>"

definition menv :: mouse_env where
  "menv =
     \<lparr>r_SDL_GetMouseFocus = Some 1,
      r_SDL_GetMouseState = (640, 480),
      platform_screen_get_scale = 200,
      calc_percentage = (\<lambda>v total. if total \<noteq> 0 then c_div (100 * v) total else 0),
      calc_adjust_with_percentage = (\<lambda>v pct. c_div (pct * v) 100),
      system_set_mouse_position = (\<lambda>p. p),
      mouse_get = (0, 0)\<rparr>"

definition mstate :: mouse_state where
  "mstate =
     \<lparr>mouse = \<lparr>data_x = 0, data_y = 0, data_enabled = 0\<rparr>,
      memory = (\<lambda>a. 0),
      relative_readings = [(15, - 7), (1, 2)],
      mouse_calls = []\<rparr>"

definition env_no_play :: lib_env where
  "env_no_play = env_ok\<lparr>r_Mix_PlayMusic := (\<lambda>m. False)\<rparr>"

definition senv :: stdio_env where
  "senv =
     \<lparr>fseek_off_t = (\<lambda>v. v),
      r_fseek = (\<lambda>f off w. if w = SEEK_CUR \<and> off < 0 then - 1 else 0),
      r_ftell = (\<lambda>f. 42),
      r_fclose = (\<lambda>f. 0),
      r_SDL_malloc = True,
      r_SDL_OpenIO = Some 9\<rparr>"

definition ops_open :: "(lib_env \<times> sound_op) list" where
  "ops_open = [(env_ok, Open)]"

definition names_200 :: "string list" where
  "names_200 = replicate 100 ''wavs/a.wav'' @ replicate 100 []"

definition ops_play :: "(lib_env \<times> sound_op) list" where
  "ops_play = [(env_ok, Open), (env_ok, Play_music (Some ''track.mp3'') 100)]"

definition ops_play_twice :: "(lib_env \<times> sound_op) list" where
  "ops_play_twice =
     [(env_ok, Open), (env_ok, Play_music (Some ''track.mp3'') 100),
      (env_ok, Play_music (Some ''other.mp3'') 80)]"

definition ops_play_close_stop :: "(lib_env \<times> sound_op) list" where
  "ops_play_close_stop =
     [(env_ok, Open), (env_ok, Play_music (Some ''track.mp3'') 100), (env_ok, Close),
      (env_ok, Stop_music)]"

definition ops_custom_twice :: "(lib_env \<times> sound_op) list" where
  "ops_custom_twice =
     [(env_ok, Use_custom_music_player 8 1 22050 None 0),
      (env_ok, Use_custom_music_player 16 2 44100 (Some [1, 2, 3, 4]) 4)]"

definition ops_custom :: "(lib_env \<times> sound_op) list" where
  "ops_custom = [(env_ok, Use_custom_music_player 16 2 44100 (Some [1, 2, 3, 4]) 4)]"

section \<open>Auxiliary lemmas\<close>

subsection \<open>Projections of the state updates\<close>

lemma call_simps [simp]:
  "data (call c s) = data s"
  "custom_music (call c s) = custom_music s"
  "lib (call c s) = lib_effect c (lib s)"
  "calls (call c s) = calls s @ [c]"
  by (simp_all add: call_def)

lemma set_chunk_at_simps [simp]:
  "custom_music (set_chunk_at i c s) = custom_music s"
  "lib (set_chunk_at i c s) = lib s"
  "calls (set_chunk_at i c s) = calls s"
  "initialized (data (set_chunk_at i c s)) = initialized (data s)"
  "music (data (set_chunk_at i c s)) = music (data s)"
  "length (channels (data (set_chunk_at i c s))) = length (channels (data s))"
  by (simp_all add: set_chunk_at_def)

lemma set_filename_at_simps [simp]:
  "custom_music (set_filename_at i f s) = custom_music s"
  "lib (set_filename_at i f s) = lib s"
  "calls (set_filename_at i f s) = calls s"
  "initialized (data (set_filename_at i f s)) = initialized (data s)"
  "music (data (set_filename_at i f s)) = music (data s)"
  "length (channels (data (set_filename_at i f s))) = length (channels (data s))"
  by (simp_all add: set_filename_at_def)

lemma set_initialized_simps [simp]:
  "custom_music (set_initialized v s) = custom_music s"
  "lib (set_initialized v s) = lib s"
  "calls (set_initialized v s) = calls s"
  "initialized (data (set_initialized v s)) = v"
  "music (data (set_initialized v s)) = music (data s)"
  "channels (data (set_initialized v s)) = channels (data s)"
  by (simp_all add: set_initialized_def)

lemma set_music_simps [simp]:
  "custom_music (set_music m s) = custom_music s"
  "lib (set_music m s) = lib s"
  "calls (set_music m s) = calls s"
  "initialized (data (set_music m s)) = initialized (data s)"
  "music (data (set_music m s)) = m"
  "channels (data (set_music m s)) = channels (data s)"
  by (simp_all add: set_music_def)

lemma set_stream_simps [simp]:
  "data (set_stream st s) = data s"
  "lib (set_stream st s) = lib s"
  "calls (set_stream st s) = calls s"
  "stream (custom_music (set_stream st s)) = st"
  "format (custom_music (set_stream st s)) = format (custom_music s)"
  "dst_format (custom_music (set_stream st s)) = dst_format (custom_music s)"
  by (simp_all add: set_stream_def)

lemma set_format_simps [simp]:
  "data (set_format f s) = data s"
  "lib (set_format f s) = lib s"
  "calls (set_format f s) = calls s"
  "stream (custom_music (set_format f s)) = stream (custom_music s)"
  "format (custom_music (set_format f s)) = f"
  "dst_format (custom_music (set_format f s)) = dst_format (custom_music s)"
  by (simp_all add: set_format_def)

lemma set_dst_format_simps [simp]:
  "data (set_dst_format f s) = data s"
  "lib (set_dst_format f s) = lib s"
  "calls (set_dst_format f s) = calls s"
  "stream (custom_music (set_dst_format f s)) = stream (custom_music s)"
  "format (custom_music (set_dst_format f s)) = format (custom_music s)"
  "dst_format (custom_music (set_dst_format f s)) = f"
  by (simp_all add: set_dst_format_def)

lemma in_table_simps [simp]:
  "in_table (call c s) i = in_table s i"
  "in_table (set_chunk_at j ck s) i = in_table s i"
  "in_table (set_filename_at j f s) i = in_table s i"
  "in_table (set_initialized v s) i = in_table s i"
  "in_table (set_music m s) i = in_table s i"
  by (simp_all add: in_table_def)

lemma table_ok_simps [simp]:
  "table_ok (call c s) = table_ok s"
  "table_ok (set_chunk_at j ck s) = table_ok s"
  "table_ok (set_filename_at j f s) = table_ok s"
  "table_ok (set_initialized v s) = table_ok s"
  "table_ok (set_music m s) = table_ok s"
  "table_ok (set_stream st s) = table_ok s"
  "table_ok (set_format fm s) = table_ok s"
  "table_ok (set_dst_format fm s) = table_ok s"
  by (simp_all add: table_ok_def)

lemma in_table_iff: "table_ok s \<Longrightarrow> in_table s i \<longleftrightarrow> 0 \<le> i \<and> i < 150"
  by (simp add: table_ok_def in_table_def MAX_CHANNELS_def)

lemma in_table_data: "data s' = data s \<Longrightarrow> in_table s' i = in_table s i"
  by (simp add: in_table_def)

lemma table_ok_data: "data s' = data s \<Longrightarrow> table_ok s' = table_ok s"
  by (simp add: table_ok_def)

lemma load_chunk_frame:
  "load_chunk env f s = (c, s') \<Longrightarrow>
     data s' = data s \<and> custom_music s' = custom_music s \<and> lib s' = lib s"
  by (auto simp: load_chunk_def Let_def split: if_splits)

lemma load_chunk_in_table [simp]:
  "load_chunk env f s = (c, s') \<Longrightarrow> in_table s' i = in_table s i"
  by (auto dest: load_chunk_frame simp: in_table_def)

lemma stop_channel_in_range:
  "in_table s channel \<Longrightarrow> \<exists>s'. sound_device_stop_channel channel s = Inr s' 
      \<and> (\<forall>i. in_table s' i = in_table s i) \<and> initialized (data s') = initialized (data s)"
  by (auto simp: sound_device_stop_channel_def split: option.splits)

lemma set_channel_volume_in_range:
  "in_table s channel \<Longrightarrow> \<exists>s'. sound_device_set_channel_volume channel v s = Inr s'
      \<and> (\<forall>i. in_table s' i = in_table s i) \<and> data s' = data s"
  by (auto simp: sound_device_set_channel_volume_def split: option.splits)

lemma load_channel_in_range:
  "in_table s channel \<Longrightarrow> \<exists>r s'. load_channel env channel s = Inr (r, s')
      \<and> (\<forall>i. in_table s' i = in_table s i)"
  by (auto simp: load_channel_def Let_def split: option.splits prod.splits)

subsection \<open>Frames of the channel operations\<close>

lemma keeps_refl [simp]: "keeps s s"
  by (simp add: keeps_def)

lemma keeps_trans: "keeps s s1 \<Longrightarrow> keeps s1 s2 \<Longrightarrow> keeps s s2"
  by (auto simp: keeps_def)

lemma neutral_effect:
  "neutral c \<Longrightarrow>
     music_loaded (lib_effect c m) = music_loaded m
     \<and> audio_streams (lib_effect c m) = audio_streams m
     \<and> hook_installed (lib_effect c m) = hook_installed m
     \<and> (music_playing (lib_effect c m) = music_playing m \<or> music_playing (lib_effect c m) = None)"
  by (cases c) auto

lemma keeps_call: "neutral c \<Longrightarrow> keeps s s1 \<Longrightarrow> keeps s (call c s1)"
  using neutral_effect [of c "lib s1"] by (auto simp: keeps_def)

lemma keeps_set_chunk_at: "keeps s s1 \<Longrightarrow> keeps s (set_chunk_at i c s1)"
  by (auto simp: keeps_def)

lemma keeps_set_filename_at: "keeps s s1 \<Longrightarrow> keeps s (set_filename_at i f s1)"
  by (auto simp: keeps_def)

lemma keeps_set_initialized: "keeps s s1 \<Longrightarrow> keeps s (set_initialized v s1)"
  by (auto simp: keeps_def)

lemmas keeps_intros = keeps_call keeps_set_chunk_at keeps_set_filename_at keeps_set_initialized

lemma keeps_load_chunk: "load_chunk env f s1 = (c, s2) \<Longrightarrow> keeps s s1 \<Longrightarrow> keeps s s2"
  by (auto simp: load_chunk_def Let_def keeps_intros split: if_splits)

lemma keeps_table_ok: "keeps s s' \<Longrightarrow> table_ok s' = table_ok s"
  by (simp add: keeps_def table_ok_def)

lemma stop_channel_keeps:
  "sound_device_stop_channel channel s = Inr s' \<Longrightarrow>
     keeps s s' \<and> initialized (data s') = initialized (data s)"
  by (auto simp: sound_device_stop_channel_def keeps_intros split: if_splits option.splits)

lemma stop_channel_outside:
  "\<not> in_table s channel \<Longrightarrow> initialized (data s) \<noteq> 0 \<Longrightarrow>
     sound_device_stop_channel channel s = Inl ChannelOutOfBounds"
  by (simp add: sound_device_stop_channel_def)

lemma init_channels_loop_ok:
  "0 \<le> i \<Longrightarrow> table_ok s \<Longrightarrow>
     \<exists>s'. init_channels_loop i s = Inr s' \<and> keeps s s' \<and> lib s' = lib s \<and> calls s' = calls s
          \<and> initialized (data s') = initialized (data s)"
proof (induction i s rule: init_channels_loop.induct)
  case (1 i s)
  show ?case
  proof (cases "i < MAX_CHANNELS")
    case False
    then show ?thesis by (subst init_channels_loop.simps) simp
  next
    case True
    with 1(2,3) have t: "in_table s i" by (simp add: in_table_def table_ok_def)
    from 1(1) [OF True t] 1(2,3) obtain s' where
      s': "init_channels_loop (i + 1) (set_chunk_at i None s) = Inr s'"
          "keeps (set_chunk_at i None s) s'" "lib s' = lib s" "calls s' = calls s"
          "initialized (data s') = initialized (data s)"
      by auto
    have "keeps s (set_chunk_at i None s)" by (simp add: keeps_intros)
    with s'(2) have "keeps s s'" by (blast intro: keeps_trans)
    with True t s' show ?thesis by (subst init_channels_loop.simps) simp
  qed
qed

lemma close_loop_ok:
  "0 \<le> i \<Longrightarrow> table_ok s \<Longrightarrow>
     \<exists>s'. close_loop i s = Inr s' \<and> keeps s s' \<and> initialized (data s') = initialized (data s)"
proof (induction i s rule: close_loop.induct)
  case (1 i s)
  show ?case
  proof (cases "i < MAX_CHANNELS")
    case False
    then show ?thesis by (subst close_loop.simps) simp
  next
    case True
    with 1(2,3) have t: "in_table s i" by (simp add: in_table_def table_ok_def)
    from stop_channel_in_range [OF t] obtain s1 where
      s1: "sound_device_stop_channel i s = Inr s1" by auto
    from stop_channel_keeps [OF s1] have k: "keeps s s1" "initialized (data s1) = initialized (data s)"
      by auto
    from k(1) 1(3) have "table_ok s1" by (simp add: keeps_table_ok)
    from 1(1) [OF True s1 _ this] 1(2) obtain s' where
      s': "close_loop (i + 1) s1 = Inr s'" "keeps s1 s'" "initialized (data s') = initialized (data s1)"
      by auto
    from k(1) s'(2) have "keeps s s'" by (blast intro: keeps_trans)
    with True s1 s' k show ?thesis by (subst close_loop.simps) simp
  qed
qed

lemma log_devices_loop_keeps:
  "keeps s0 s \<Longrightarrow> keeps s0 (log_devices_loop env i n s)
     \<and> data (log_devices_loop env i n s) = data s"
proof (induction env i n s rule: log_devices_loop.induct)
  case (1 env i n s)
  show ?case
  proof (cases "i < n")
    case False
    with 1(2) show ?thesis by (subst log_devices_loop.simps, subst log_devices_loop.simps) simp
  next
    case True
    have "keeps s0 (call (Log_message (''Audio device: '' @ r_SDL_GetAudioDeviceName env i)) s)"
      using 1(2) by (simp add: keeps_intros)
    from 1(1) [OF True this] True show ?thesis
      by (subst log_devices_loop.simps, subst log_devices_loop.simps) simp
  qed
qed

lemma open_ok:
  assumes "table_ok s"
  shows "\<exists>s'. sound_device_open env s = Inr s' \<and> keeps s s'
           \<and> (r_Mix_OpenAudio env \<longrightarrow> initialized (data s') = 1)"
proof (cases "r_Mix_OpenAudio env")
  case True
  let ?s1 = "set_initialized 1 (call (Mix_OpenAudio (SDL_AudioSpec AUDIO_RATE AUDIO_FORMAT AUDIO_CHANNELS) True) s)"
  have k1: "keeps s ?s1" by (simp add: keeps_intros)
  have "table_ok ?s1" using assms by simp
  from init_channels_loop_ok [OF _ this, of 0] obtain s' where
    s': "init_channels_loop 0 ?s1 = Inr s'" "keeps ?s1 s'" "initialized (data s') = initialized (data ?s1)"
    by auto
  from k1 s'(2) have "keeps s s'" by (blast intro: keeps_trans)
  with True s' show ?thesis
    by (simp add: sound_device_open_def init_channels_def Let_def)
next
  case False
  then show ?thesis
    using log_devices_loop_keeps
      [of s "call (Log_message ''Number of audio devices'')
               (call (Log_message ''Sound failed to initialize using default driver'')
                 (call (Mix_OpenAudio (SDL_AudioSpec AUDIO_RATE AUDIO_FORMAT AUDIO_CHANNELS) False) s))"
          env 0 "r_SDL_GetNumAudioDrivers env"]
    by (simp add: sound_device_open_def Let_def keeps_intros)
qed

lemma close_ok:
  assumes "table_ok s"
  shows "\<exists>s'. sound_device_close s = Inr s' \<and> keeps s s' \<and> initialized (data s') = 0"
proof (cases "initialized (data s) = 0")
  case True
  then show ?thesis by (simp add: sound_device_close_def)
next
  case False
  from close_loop_ok [OF _ assms, of 0] obtain s1 where
    s1: "close_loop 0 s = Inr s1" "keeps s s1" by auto
  then have "keeps s (set_initialized 0 (call Mix_CloseAudio s1))"
    by (simp add: keeps_intros)
  with False s1 show ?thesis by (simp add: sound_device_close_def)
qed

lemma init_filenames_loop_safe:
  "0 \<le> i \<Longrightarrow> n \<le> MAX_CHANNELS \<Longrightarrow> table_ok s \<Longrightarrow>
     init_filenames_loop fs i n s \<noteq> Inl ChannelOutOfBounds
     \<and> (\<forall>s'. init_filenames_loop fs i n s = Inr s' \<longrightarrow>
            keeps s s' \<and> initialized (data s') = initialized (data s))"
proof (induction fs i n s rule: init_filenames_loop.induct)
  case (1 fs i n s)
  show ?case
  proof (cases "i < n")
    case False
    then show ?thesis by (subst init_filenames_loop.simps, subst init_filenames_loop.simps) simp
  next
    case True
    with 1(2,3,4) have t: "in_table s i" by (simp add: in_table_def table_ok_def)
    show ?thesis
    proof (cases "0 \<le> i \<and> nat i < length fs")
      case False
      with True t show ?thesis
        by (subst init_filenames_loop.simps, subst init_filenames_loop.simps) simp
    next
      case inb: True
      let ?s1 = "set_filename_at i (if fs ! nat i \<noteq> [] then Some (fs ! nat i) else None)
                   (set_chunk_at i None s)"
      have nt: "\<not> \<not> in_table s i" using t by simp
      have nf: "\<not> \<not> (0 \<le> i \<and> nat i < length fs)" using inb by simp
      have k: "keeps s ?s1" by (simp add: keeps_intros)
      have "table_ok ?s1" using 1(4) by simp
      from 1(1) [OF True nt nf _ 1(3) this] 1(2)
      have ih: "init_filenames_loop fs (i + 1) n ?s1 \<noteq> Inl ChannelOutOfBounds"
         "\<And>s'. init_filenames_loop fs (i + 1) n ?s1 = Inr s' \<Longrightarrow>
                keeps ?s1 s' \<and> initialized (data s') = initialized (data ?s1)"
        by auto
      have eq: "init_filenames_loop fs i n s = init_filenames_loop fs (i + 1) n ?s1"
        using True t inb by (subst init_filenames_loop.simps) simp
      show ?thesis
        unfolding eq using ih k by (auto intro: keeps_trans)
    qed
  qed
qed

lemma init_channels_safe:
  assumes "table_ok s"
  shows "sound_device_init_channels n fs s \<noteq> Inl ChannelOutOfBounds
     \<and> (\<forall>s'. sound_device_init_channels n fs s = Inr s' \<longrightarrow> keeps s s')"
proof (cases "initialized (data s) = 0")
  case True
  then show ?thesis by (simp add: sound_device_init_channels_def)
next
  case False
  let ?n = "if n > MAX_CHANNELS then MAX_CHANNELS else n"
  let ?s2 = "call (Log_message ''Loading audio files'') (call (Mix_AllocateChannels ?n) s)"
  have k: "keeps s ?s2" by (simp add: keeps_intros)
  have "table_ok ?s2" using assms by simp
  from init_filenames_loop_safe [OF _ _ this, of 0 ?n fs]
  have "init_filenames_loop fs 0 ?n ?s2 \<noteq> Inl ChannelOutOfBounds"
       "\<And>s'. init_filenames_loop fs 0 ?n ?s2 = Inr s' \<Longrightarrow> keeps ?s2 s'"
    by auto
  with k False show ?thesis
    by (auto simp: sound_device_init_channels_def Let_def intro: keeps_trans)
qed

lemma is_channel_playing_keeps:
  "sound_device_is_channel_playing env c s = Inr (r, s') \<Longrightarrow> keeps s s'"
  by (auto simp: sound_device_is_channel_playing_def Let_def keeps_intros
        split: if_splits option.splits)

lemma set_channel_volume_keeps:
  "sound_device_set_channel_volume c v s = Inr s' \<Longrightarrow> keeps s0 s \<Longrightarrow> keeps s0 s'"
  by (auto simp: sound_device_set_channel_volume_def keeps_intros
        split: if_splits option.splits)

lemma load_channel_keeps:
  assumes "load_channel env c s = Inr (r, s')"
  shows "keeps s s'"
proof -
  from assms have t: "in_table s c"
    by (simp add: load_channel_def split: if_splits)
  show ?thesis
  proof (cases "chunk (channel_at s c) = None \<and> filename (channel_at s c) \<noteq> None")
    case True
    then obtain f where f: "chunk (channel_at s c) = None" "filename (channel_at s c) = Some f"
      by auto
    obtain ck s1 where l: "load_chunk env f s = (ck, s1)" by (cases "load_chunk env f s")
    from keeps_load_chunk [OF l keeps_refl] have "keeps s (set_chunk_at c ck s1)"
      by (simp add: keeps_intros)
    moreover from assms t f l have "s' = set_chunk_at c ck s1"
      by (simp add: load_channel_def Let_def)
    ultimately show ?thesis by simp
  next
    case False
    with assms t have "s' = s"
      by (auto simp: load_channel_def Let_def split: option.splits)
    then show ?thesis by simp
  qed
qed


lemma play_file_on_channel_keeps:
  assumes "sound_device_play_file_on_channel env fname c v s = Inr s'"
  shows "keeps s s'"
proof (cases "initialized (data s) = 0")
  case True
  with assms show ?thesis by (simp add: sound_device_play_file_on_channel_def)
next
  case False
  with assms obtain s1 where s1: "sound_device_stop_channel c s = Inr s1"
    by (auto simp: sound_device_play_file_on_channel_def split: sum.splits)
  with assms False obtain f where f: "fname = Some f"
    by (auto simp: sound_device_play_file_on_channel_def split: option.splits)
  obtain ck s2 where l: "load_chunk env f s1 = (ck, s2)" by (cases "load_chunk env f s1")
  from stop_channel_keeps [OF s1] have k1: "keeps s s1" by simp
  from keeps_load_chunk [OF l k1] have k3: "keeps s (set_chunk_at c ck s2)"
    by (simp add: keeps_intros)
  from assms False s1 f l have t2: "in_table s2 c"
    by (auto simp: sound_device_play_file_on_channel_def split: if_splits)
  show ?thesis
  proof (cases "chunk (channel_at (set_chunk_at c ck s2) c)")
    case None
    with assms False s1 f l t2 have "s' = set_chunk_at c ck s2"
      by (simp add: sound_device_play_file_on_channel_def)
    with k3 show ?thesis by simp
  next
    case (Some x)
    with assms False s1 f l t2 obtain s4 where
      s4: "sound_device_set_channel_volume c v (set_chunk_at c ck s2) = Inr s4"
          "s' = call (Mix_PlayChannel c (chunk (channel_at s4 c)) 0) s4"
      by (auto simp: sound_device_play_file_on_channel_def split: sum.splits)
    from set_channel_volume_keeps [OF s4(1) k3] s4(2) show ?thesis
      by (simp add: keeps_intros)
  qed
qed

lemma play_channel_keeps:
  assumes "sound_device_play_channel env c v s = Inr s'"
  shows "keeps s s'"
proof (cases "initialized (data s) = 0")
  case True
  with assms show ?thesis by (simp add: sound_device_play_channel_def)
next
  case False
  with assms obtain r s1 where s1: "load_channel env c s = Inr (r, s1)"
    by (auto simp: sound_device_play_channel_def split: sum.splits)
  from load_channel_keeps [OF s1] have k1: "keeps s s1" .
  show ?thesis
  proof (cases "r = 0")
    case True
    with assms False s1 have "s' = s1" by (simp add: sound_device_play_channel_def)
    with k1 show ?thesis by simp
  next
    case nz: False
    with assms False s1 obtain s2 where
      s2: "sound_device_set_channel_volume c v s1 = Inr s2"
          "s' = call (Mix_PlayChannel c (chunk (channel_at s2 c)) 0) s2"
      by (auto simp: sound_device_play_channel_def split: sum.splits)
    from set_channel_volume_keeps [OF s2(1) k1] s2(2) show ?thesis
      by (simp add: keeps_intros)
  qed
qed

lemma play_channel_panned_keeps:
  assumes "sound_device_play_channel_panned env c v l r s = Inr s'"
  shows "keeps s s'"
proof (cases "initialized (data s) = 0")
  case True
  with assms show ?thesis by (simp add: sound_device_play_channel_panned_def)
next
  case False
  with assms obtain ld s1 where s1: "load_channel env c s = Inr (ld, s1)"
    by (auto simp: sound_device_play_channel_panned_def split: sum.splits)
  from load_channel_keeps [OF s1] have k1: "keeps s s1" .
  show ?thesis
  proof (cases "ld = 0")
    case True
    with assms False s1 have "s' = s1" by (simp add: sound_device_play_channel_panned_def)
    with k1 show ?thesis by simp
  next
    case nz: False
    let ?s2 = "call (Mix_SetPanning c (Uint8 (c_div (l * 255) 100)) (Uint8 (c_div (r * 255) 100))) s1"
    have k2: "keeps s ?s2" using k1 by (simp add: keeps_intros)
    from nz assms False s1 obtain s3 where
      s3: "sound_device_set_channel_volume c v ?s2 = Inr s3"
          "s' = call (Mix_PlayChannel c (chunk (channel_at s3 c)) 0) s3"
      by (auto simp: sound_device_play_channel_panned_def Let_def split: sum.splits if_splits)
    from set_channel_volume_keeps [OF s3(1) k2] s3(2) show ?thesis
      by (simp add: keeps_intros)
  qed
qed

lemma get_custom_audio_stream_keeps:
  "get_custom_audio_stream env d l s = Inr (r, s') \<Longrightarrow> keeps s s'"
  unfolding get_custom_audio_stream_def Let_def
  by (simp split: if_splits option.splits) (auto simp: keeps_intros)

lemma write_custom_music_data_keeps:
  "keeps s (sound_device_write_custom_music_data env d l s)"
  by (auto simp: sound_device_write_custom_music_data_def put_custom_audio_stream_def
        keeps_intros split: option.splits)

lemma set_music_volume_keeps: "keeps s (sound_device_set_music_volume v s)"
  by (simp add: sound_device_set_music_volume_def keeps_intros)

subsection \<open>Invariants through the operations\<close>

lemma keeps_music_inv: "keeps s s' \<Longrightarrow> music_inv s \<Longrightarrow> music_inv s'"
  by (auto simp: keeps_def music_inv_def split: option.splits)

lemma keeps_stream_inv: "keeps s s' \<Longrightarrow> stream_inv s \<Longrightarrow> stream_inv s'"
  by (auto simp: keeps_def stream_inv_def)

lemma music_frame_table_ok: "music_frame s s' \<Longrightarrow> table_ok s' = table_ok s"
  by (simp add: music_frame_def table_ok_def)

lemma music_frame_stream_inv: "music_frame s s' \<Longrightarrow> stream_inv s' = stream_inv s"
  by (simp add: music_frame_def stream_inv_def)

lemma custom_frame_table_ok: "custom_frame s s' \<Longrightarrow> table_ok s' = table_ok s"
  by (simp add: custom_frame_def table_ok_def)

lemma custom_frame_music_inv: "custom_frame s s' \<Longrightarrow> music_inv s' = music_inv s"
  by (auto simp: custom_frame_def music_inv_def split: option.splits)

lemma stop_music_frame: "music_frame s (sound_device_stop_music s)"
  by (simp add: music_frame_def sound_device_stop_music_def split: option.splits)

lemma stop_music_inv: "music_inv s \<Longrightarrow> music_inv (sound_device_stop_music s)"
  by (auto simp: music_inv_def sound_device_stop_music_def split: option.splits)

lemma stop_music_cleared:
  "initialized (data s) \<noteq> 0 \<Longrightarrow> music (data (sound_device_stop_music s)) = None"
  by (simp add: sound_device_stop_music_def split: option.splits)

lemma stop_music_silent:
  "initialized (data s) \<noteq> 0 \<Longrightarrow> music_inv s \<Longrightarrow>
     music_playing (lib (sound_device_stop_music s)) = None"
  by (auto simp: music_inv_def sound_device_stop_music_def split: option.splits)

lemma play_music_frame: "music_frame s (snd (sound_device_play_music env f v s))"
proof -
  have a: "music_frame s (sound_device_stop_music s)" by (rule stop_music_frame)
  show ?thesis
    using a
    by (auto simp: sound_device_play_music_def Let_def music_frame_def
          sound_device_set_music_volume_def split: option.splits)
qed

lemma play_music_inv:
  assumes "music_inv s"
  shows "music_inv (snd (sound_device_play_music env f v s))"
proof (cases "initialized (data s) = 0")
  case True
  with assms show ?thesis by (simp add: sound_device_play_music_def)
next
  case False
  let ?s1 = "sound_device_stop_music s"
  have i1: "music_inv ?s1" using assms by (rule stop_music_inv)
  have p1: "music_playing (lib ?s1) = None" using False assms by (rule stop_music_silent)
  show ?thesis
  proof (cases f)
    case None
    with False i1 show ?thesis by (simp add: sound_device_play_music_def)
  next
    case (Some fn)
    show ?thesis
    proof (cases "r_Mix_LoadMUS env fn")
      case None
      with False Some p1 show ?thesis
        by (simp add: sound_device_play_music_def Let_def music_inv_def)
    next
      case (Some h)
      with False \<open>f = Some fn\<close> p1 show ?thesis
        by (cases "r_Mix_PlayMusic env h")
           (simp_all add: sound_device_play_music_def Let_def music_inv_def
              sound_device_set_music_volume_def)
    qed
  qed
qed

lemma free_custom_audio_stream_frame: "custom_frame s (free_custom_audio_stream s)"
  by (simp add: custom_frame_def free_custom_audio_stream_def split: option.splits)

lemma free_custom_audio_stream_inv:
  "stream_inv s \<Longrightarrow> stream_inv (free_custom_audio_stream s)
     \<and> stream (custom_music (free_custom_audio_stream s)) = None
     \<and> audio_streams (lib (free_custom_audio_stream s)) = []"
  by (auto simp: stream_inv_def free_custom_audio_stream_def split: option.splits)

lemma create_custom_audio_stream_frame:
  "custom_frame s (snd (create_custom_audio_stream env sf sc sr df dc dr s))"
  using free_custom_audio_stream_frame [of s]
  by (cases "r_SDL_CreateAudioStream env (SDL_AudioSpec sr sf (Uint8 sc)) (SDL_AudioSpec dr df (Uint8 dc))")
     (simp_all add: custom_frame_def create_custom_audio_stream_def Let_def)

lemma create_custom_audio_stream_inv:
  assumes "stream_inv s"
  shows "stream_inv (snd (create_custom_audio_stream env sf sc sr df dc dr s))"
  using free_custom_audio_stream_inv [OF assms]
  by (cases "r_SDL_CreateAudioStream env (SDL_AudioSpec sr sf (Uint8 sc)) (SDL_AudioSpec dr df (Uint8 dc))")
     (simp_all add: stream_inv_def create_custom_audio_stream_def Let_def)

lemma write_custom_music_data_frame:
  "custom_frame s s1 \<Longrightarrow> custom_frame s (sound_device_write_custom_music_data env d l s1)"
  by (auto simp: custom_frame_def sound_device_write_custom_music_data_def
        put_custom_audio_stream_def split: option.splits)

lemma write_custom_music_data_stream:
  "custom_music (sound_device_write_custom_music_data env d l s) = custom_music s
   \<and> audio_streams (lib (sound_device_write_custom_music_data env d l s)) = audio_streams (lib s)"
  by (auto simp: sound_device_write_custom_music_data_def
        put_custom_audio_stream_def split: option.splits)

lemma use_custom_music_player_frame:
  "custom_frame s (sound_device_use_custom_music_player env b n r d l s)"
proof (cases "b = 8 \<or> b = 16")
  case False
  then show ?thesis
    by (simp add: sound_device_use_custom_music_player_def custom_frame_def)
next
  case True
  obtain dr df dc where q: "r_Mix_QuerySpec env = (dr, df, dc)"
    by (cases "r_Mix_QuerySpec env")
  let ?f = "if b = 8 then SDL_AUDIO_U8 else SDL_AUDIO_S16"
  let ?s2 = "set_format ?f (call Mix_QuerySpec s)"
  obtain res s3 where c: "create_custom_audio_stream env ?f n r df dc dr ?s2 = (res, s3)"
    by (cases "create_custom_audio_stream env ?f n r df dc dr ?s2")
  have "custom_frame s ?s2" by (simp add: custom_frame_def)
  moreover have "custom_frame ?s2 s3"
    using create_custom_audio_stream_frame [of ?s2 env ?f n r df dc dr] c by simp
  ultimately have f3: "custom_frame s s3" by (simp add: custom_frame_def)
  have f4: "custom_frame s (call (Mix_HookMusic (Some Custom_music_callback))
              (sound_device_write_custom_music_data env d l s3))"
    using write_custom_music_data_frame [OF f3, of env d l] by (simp add: custom_frame_def)
  from True q c f3 f4 show ?thesis
    by (auto simp: sound_device_use_custom_music_player_def Let_def)
qed

lemma use_custom_music_player_inv:
  assumes "stream_inv s"
  shows "stream_inv (sound_device_use_custom_music_player env b n r d l s)"
proof (cases "b = 8 \<or> b = 16")
  case False
  with assms show ?thesis
    by (simp add: sound_device_use_custom_music_player_def stream_inv_def)
next
  case True
  obtain dr df dc where q: "r_Mix_QuerySpec env = (dr, df, dc)"
    by (cases "r_Mix_QuerySpec env")
  let ?f = "if b = 8 then SDL_AUDIO_U8 else SDL_AUDIO_S16"
  let ?s2 = "set_format ?f (call Mix_QuerySpec s)"
  obtain res s3 where c: "create_custom_audio_stream env ?f n r df dc dr ?s2 = (res, s3)"
    by (cases "create_custom_audio_stream env ?f n r df dc dr ?s2")
  have "stream_inv ?s2" using assms by (simp add: stream_inv_def)
  from create_custom_audio_stream_inv [OF this, of env ?f n r df dc dr] c
  have i3: "stream_inv s3" by simp
  have i4: "stream_inv (call (Mix_HookMusic (Some Custom_music_callback))
              (sound_device_write_custom_music_data env d l s3))"
    using i3 write_custom_music_data_stream [of env d l s3] by (simp add: stream_inv_def)
  from True q c i3 i4 show ?thesis
    by (auto simp: sound_device_use_custom_music_player_def Let_def)
qed

lemma use_default_music_player_frame:
  "custom_frame s (sound_device_use_default_music_player s)"
  using free_custom_audio_stream_frame [of "call (Mix_HookMusic None) s"]
  by (simp add: sound_device_use_default_music_player_def custom_frame_def)

lemma use_default_music_player_inv:
  assumes "stream_inv s"
  shows "stream_inv (sound_device_use_default_music_player s)
     \<and> stream (custom_music (sound_device_use_default_music_player s)) = None
     \<and> audio_streams (lib (sound_device_use_default_music_player s)) = []"
proof -
  have "stream_inv (call (Mix_HookMusic None) s)" using assms by (simp add: stream_inv_def)
  from free_custom_audio_stream_inv [OF this] show ?thesis
    by (simp add: sound_device_use_default_music_player_def)
qed

lemma exec_effect:
  assumes "table_ok s" and "exec env opn s = Inr s'"
  shows "keeps s s'
     \<or> (music_frame s s' \<and> (music_inv s \<longrightarrow> music_inv s'))
     \<or> (custom_frame s s' \<and> (stream_inv s \<longrightarrow> stream_inv s'))"
proof (cases opn)
  case Open
  with assms open_ok [OF assms(1), of env] show ?thesis by auto
next
  case Close
  with assms close_ok [OF assms(1)] show ?thesis by auto
next
  case (Init_channels n fs)
  with assms init_channels_safe [OF assms(1), of n fs] show ?thesis by auto
next
  case (Is_channel_playing c)
  with assms show ?thesis
    by (auto split: sum.splits dest: is_channel_playing_keeps)
next
  case (Set_music_volume v)
  with assms show ?thesis by (auto simp: set_music_volume_keeps)
next
  case (Set_channel_volume c v)
  with assms set_channel_volume_keeps [of c v s s' s] show ?thesis by auto
next
  case (Play_music f v)
  with assms play_music_frame [of s env f v] play_music_inv [of s env f v] show ?thesis by auto
next
  case (Play_file_on_channel f c v)
  with assms show ?thesis by (auto dest: play_file_on_channel_keeps)
next
  case (Play_channel c v)
  with assms show ?thesis by (auto dest: play_channel_keeps)
next
  case (Play_channel_panned c v l r)
  with assms show ?thesis by (auto dest: play_channel_panned_keeps)
next
  case Stop_music
  with assms stop_music_frame [of s] stop_music_inv [of s] show ?thesis by auto
next
  case (Stop_channel c)
  with assms show ?thesis by (auto dest: stop_channel_keeps)
next
  case (Use_custom_music_player b n r d l)
  with assms use_custom_music_player_frame [of s env b n r d l]
    use_custom_music_player_inv [of s env b n r d l] show ?thesis by auto
next
  case (Write_custom_music_data d l)
  with assms show ?thesis by (auto simp: write_custom_music_data_keeps)
next
  case Use_default_music_player
  with assms use_default_music_player_frame [of s] use_default_music_player_inv [of s]
  show ?thesis by auto
next
  case (Mixer_runs_hook d l)
  show ?thesis
  proof (cases "hook_installed (lib s)")
    case None
    with assms Mixer_runs_hook show ?thesis by simp
  next
    case (Some h)
    with assms Mixer_runs_hook show ?thesis
      by (cases h) (auto simp: custom_music_callback_def split: sum.splits
                      dest: get_custom_audio_stream_keeps)
  qed
qed

lemma exec_table_ok: "table_ok s \<Longrightarrow> exec env opn s = Inr s' \<Longrightarrow> table_ok s'"
  using exec_effect [of s env opn s']
  by (auto simp: keeps_table_ok music_frame_table_ok custom_frame_table_ok)

lemma exec_music_inv:
  "table_ok s \<Longrightarrow> music_inv s \<Longrightarrow> exec env opn s = Inr s' \<Longrightarrow> music_inv s'"
  using exec_effect [of s env opn s']
  by (auto simp: custom_frame_music_inv dest: keeps_music_inv)

lemma exec_stream_inv:
  "table_ok s \<Longrightarrow> stream_inv s \<Longrightarrow> exec env opn s = Inr s' \<Longrightarrow> stream_inv s'"
  using exec_effect [of s env opn s']
  by (auto simp: music_frame_stream_inv dest: keeps_stream_inv)

lemma initial_state_ok: "table_ok initial_state \<and> music_inv initial_state \<and> stream_inv initial_state"
  by (simp add: initial_state_def table_ok_def music_inv_def stream_inv_def MAX_CHANNELS_def)

lemma run_invariants:
  "table_ok s \<Longrightarrow> music_inv s \<Longrightarrow> stream_inv s \<Longrightarrow> run ops s = Inr s' \<Longrightarrow>
     table_ok s' \<and> music_inv s' \<and> stream_inv s'"
proof (induction ops arbitrary: s)
  case Nil
  then show ?case by simp
next
  case (Cons a ops)
  obtain env opn where a: "a = (env, opn)" by (cases a)
  with Cons.prems(4) obtain s1 where
    s1: "exec env opn s = Inr s1" "run ops s1 = Inr s'"
    by (auto split: sum.splits)
  from Cons.prems(1-3) s1(1) have "table_ok s1" "music_inv s1" "stream_inv s1"
    by (blast intro: exec_table_ok exec_music_inv exec_stream_inv)+
  from Cons.IH [OF this s1(2)] show ?case .
qed

subsection \<open>The loop that records the file names\<close>

lemma init_filenames_loop_take:
  "n \<le> int m \<Longrightarrow> init_filenames_loop (take m fs) i n s = init_filenames_loop fs i n s"
proof (induction fs i n s rule: init_filenames_loop.induct)
  case (1 fs i n s)
  show ?case
  proof (cases "i < n \<and> in_table s i \<and> 0 \<le> i \<and> nat i < length fs")
    case True
    then have m: "nat i < m" using 1(2) by linarith
    with True have tk: "nat i < length (take m fs)" "take m fs ! nat i = fs ! nat i" by simp_all
    from True have a: "i < n" "\<not> \<not> in_table s i" "\<not> \<not> (0 \<le> i \<and> nat i < length fs)" by simp_all
    from 1(1) [OF a 1(2)] True tk show ?thesis
      by (subst init_filenames_loop.simps, subst (2) init_filenames_loop.simps) auto
  next
    case False
    then show ?thesis
      by (subst init_filenames_loop.simps, subst (2) init_filenames_loop.simps) auto
  qed
qed

lemma slot_record: "(r::sound_channel)\<lparr>chunk := None, filename := f\<rparr> = \<lparr>filename = f, chunk = None\<rparr>"
  by (cases r) simp

lemma slot_update:
  assumes "in_table s i"
  shows "channels (data (set_filename_at i f (set_chunk_at i None s)))
       = (channels (data s))[nat i := \<lparr>filename = f, chunk = None\<rparr>]"
proof -
  from assms have "nat i < length (channels (data s))"
    by (simp add: in_table_def) linarith
  then show ?thesis
    by (simp add: set_filename_at_def set_chunk_at_def channel_at_def slot_record)
qed

lemma init_filenames_loop_result:
  "0 \<le> i \<Longrightarrow> n \<le> MAX_CHANNELS \<Longrightarrow> n \<le> int (length fs) \<Longrightarrow> table_ok s \<Longrightarrow>
     \<exists>s'. init_filenames_loop fs i n s = Inr s'
        \<and> lib s' = lib s \<and> calls s' = calls s
        \<and> length (channels (data s')) = length (channels (data s))
        \<and> (\<forall>k < length (channels (data s)).
              channels (data s') ! k
                = (if i \<le> int k \<and> int k < n
                   then \<lparr>filename = (if fs ! k \<noteq> [] then Some (fs ! k) else None), chunk = None\<rparr>
                   else channels (data s) ! k))"
proof (induction fs i n s rule: init_filenames_loop.induct)
  case (1 fs i n s)
  show ?case
  proof (cases "i < n")
    case False
    then have none: "\<And>k. \<not> (i \<le> int k \<and> int k < n)" by linarith
    have "init_filenames_loop fs i n s = Inr s"
      using False by (subst init_filenames_loop.simps) simp
    then show ?thesis using none by auto
  next
    case True
    with 1(2,3,5) have t: "in_table s i" by (simp add: in_table_def table_ok_def)
    from True 1(2,4) have inb: "0 \<le> i \<and> nat i < length fs" by linarith
    let ?f = "if fs ! nat i \<noteq> [] then Some (fs ! nat i) else None"
    let ?s1 = "set_filename_at i ?f (set_chunk_at i None s)"
    have nt: "\<not> \<not> in_table s i" using t by simp
    have nf: "\<not> \<not> (0 \<le> i \<and> nat i < length fs)" using inb by simp
    have ok1: "table_ok ?s1" using 1(5) by simp
    from 1(1) [OF True nt nf _ 1(3) 1(4) ok1] 1(2) obtain s' where
      s': "init_filenames_loop fs (i + 1) n ?s1 = Inr s'"
          "lib s' = lib ?s1" "calls s' = calls ?s1"
          "length (channels (data s')) = length (channels (data ?s1))"
          "\<forall>k < length (channels (data ?s1)).
              channels (data s') ! k
                = (if i + 1 \<le> int k \<and> int k < n
                   then \<lparr>filename = (if fs ! k \<noteq> [] then Some (fs ! k) else None), chunk = None\<rparr>
                   else channels (data ?s1) ! k)"
      by auto
    have eq: "init_filenames_loop fs i n s = init_filenames_loop fs (i + 1) n ?s1"
      using True t inb by (subst init_filenames_loop.simps) simp
    have ch: "channels (data ?s1) = (channels (data s))[nat i := \<lparr>filename = ?f, chunk = None\<rparr>]"
      using t by (rule slot_update)
    have "\<forall>k < length (channels (data s)).
              channels (data s') ! k
                = (if i \<le> int k \<and> int k < n
                   then \<lparr>filename = (if fs ! k \<noteq> [] then Some (fs ! k) else None), chunk = None\<rparr>
                   else channels (data s) ! k)"
    proof (intro allI impI)
      fix k assume k: "k < length (channels (data s))"
      then have k1: "k < length (channels (data ?s1))" by simp
      show "channels (data s') ! k
                = (if i \<le> int k \<and> int k < n
                   then \<lparr>filename = (if fs ! k \<noteq> [] then Some (fs ! k) else None), chunk = None\<rparr>
                   else channels (data s) ! k)"
      proof (cases "int k = i")
        case True
        then have ki: "k = nat i" by simp
        from s'(5) k1 True have "channels (data s') ! k = channels (data ?s1) ! k" by simp
        also have "\<dots> = \<lparr>filename = ?f, chunk = None\<rparr>"
          unfolding ch using k ki by simp
        finally show ?thesis using True \<open>i < n\<close> ki by simp
      next
        case False
        then have ne: "k \<noteq> nat i" using 1(2) by linarith
        from s'(5) k1 have "channels (data s') ! k
                = (if i + 1 \<le> int k \<and> int k < n
                   then \<lparr>filename = (if fs ! k \<noteq> [] then Some (fs ! k) else None), chunk = None\<rparr>
                   else channels (data ?s1) ! k)" by simp
        moreover have "channels (data ?s1) ! k = channels (data s) ! k"
          unfolding ch using ne by simp
        moreover have "(i + 1 \<le> int k) = (i \<le> int k)" using False by linarith
        ultimately show ?thesis by simp
      qed
    qed
    with s' show ?thesis unfolding eq by simp
  qed
qed

subsection \<open>Channel numbers inside the table\<close>

lemma is_channel_playing_in_range:
  "in_table s c \<Longrightarrow> sound_device_is_channel_playing env c s \<noteq> Inl ChannelOutOfBounds"
  by (simp add: sound_device_is_channel_playing_def Let_def split: option.splits)

lemma play_file_on_channel_in_range:
  assumes t: "in_table s c"
  shows "sound_device_play_file_on_channel env fname c v s \<noteq> Inl ChannelOutOfBounds"
proof (cases "initialized (data s) = 0")
  case True
  then show ?thesis by (simp add: sound_device_play_file_on_channel_def)
next
  case False
  from stop_channel_in_range [OF t] obtain s1 where
    s1: "sound_device_stop_channel c s = Inr s1" "in_table s1 c"
    using t by auto
  show ?thesis
  proof (cases fname)
    case None
    with False s1 show ?thesis by (simp add: sound_device_play_file_on_channel_def)
  next
    case (Some f)
    obtain ck s2 where l: "load_chunk env f s1 = (ck, s2)" by (cases "load_chunk env f s1")
    have t2: "in_table s2 c" using l s1 by simp
    then have t3: "in_table (set_chunk_at c ck s2) c" by simp
    from set_channel_volume_in_range [OF t3, of v] obtain s4 where
      "sound_device_set_channel_volume c v (set_chunk_at c ck s2) = Inr s4"
      by auto
    with False s1 Some l t2 show ?thesis
      by (simp add: sound_device_play_file_on_channel_def Let_def split: option.splits)
  qed
qed

lemma play_channel_in_range:
  assumes t: "in_table s c"
  shows "sound_device_play_channel env c v s \<noteq> Inl ChannelOutOfBounds"
proof -
  from load_channel_in_range [OF t] obtain r1 s1 where
    lc: "load_channel env c s = Inr (r1, s1)" "in_table s1 c"
    using t by blast
  from set_channel_volume_in_range [OF lc(2), of v] obtain s2 where
    "sound_device_set_channel_volume c v s1 = Inr s2" by auto
  with lc show ?thesis by (simp add: sound_device_play_channel_def)
qed

lemma play_channel_panned_in_range:
  assumes t: "in_table s c"
  shows "sound_device_play_channel_panned env c v l r s \<noteq> Inl ChannelOutOfBounds"
proof -
  from load_channel_in_range [OF t] obtain r1 s1 where
    lc: "load_channel env c s = Inr (r1, s1)" "in_table s1 c"
    using t by blast
  have "in_table (call (Mix_SetPanning c (Uint8 (c_div (l * 255) 100))
                     (Uint8 (c_div (r * 255) 100))) s1) c"
    using lc(2) by simp
  from set_channel_volume_in_range [OF this, of v] obtain s3 where
    "sound_device_set_channel_volume c v
       (call (Mix_SetPanning c (Uint8 (c_div (l * 255) 100))
                     (Uint8 (c_div (r * 255) 100))) s1) = Inr s3" by auto
  with lc show ?thesis by (simp add: sound_device_play_channel_panned_def Let_def)
qed

lemma get_custom_audio_stream_no_oob:
  "get_custom_audio_stream env d l s \<noteq> Inl ChannelOutOfBounds"
  by (simp add: get_custom_audio_stream_def Let_def split: option.splits)

lemma exec_no_oob:
  assumes "table_ok s" and "channel_args_ok opn"
  shows "exec env opn s \<noteq> Inl ChannelOutOfBounds"
proof (cases opn)
  case Open
  with open_ok [OF assms(1), of env] show ?thesis by auto
next
  case Close
  with close_ok [OF assms(1)] show ?thesis by auto
next
  case (Init_channels n fs)
  with init_channels_safe [OF assms(1), of n fs] show ?thesis by simp
next
  case (Is_channel_playing c)
  with assms have "in_table s c" by (simp add: in_table_iff MAX_CHANNELS_def)
  from is_channel_playing_in_range [OF this, of env] Is_channel_playing show ?thesis
    by (auto split: sum.splits)
next
  case (Set_channel_volume c v)
  with assms have "in_table s c" by (simp add: in_table_iff MAX_CHANNELS_def)
  from set_channel_volume_in_range [OF this, of v] Set_channel_volume show ?thesis by auto
next
  case (Play_file_on_channel f c v)
  with assms have "in_table s c" by (simp add: in_table_iff MAX_CHANNELS_def)
  from play_file_on_channel_in_range [OF this] Play_file_on_channel show ?thesis by simp
next
  case (Play_channel c v)
  with assms have "in_table s c" by (simp add: in_table_iff MAX_CHANNELS_def)
  from play_channel_in_range [OF this] Play_channel show ?thesis by simp
next
  case (Play_channel_panned c v l r)
  with assms have "in_table s c" by (simp add: in_table_iff MAX_CHANNELS_def)
  from play_channel_panned_in_range [OF this] Play_channel_panned show ?thesis by simp
next
  case (Stop_channel c)
  with assms have "in_table s c" by (simp add: in_table_iff MAX_CHANNELS_def)
  from stop_channel_in_range [OF this] Stop_channel show ?thesis by auto
next
  case (Mixer_runs_hook d l)
  show ?thesis
  proof (cases "hook_installed (lib s)")
    case None
    with Mixer_runs_hook show ?thesis by simp
  next
    case (Some h)
    with Mixer_runs_hook get_custom_audio_stream_no_oob [of env d l s] show ?thesis
      by (cases h) (auto simp: custom_music_callback_def split: sum.splits)
  qed
qed simp_all

lemma create_stream_keeps_hook:
  "hook_installed (lib_effect (SDL_CreateAudioStream a b r) m) = hook_installed m"
  by (cases r) simp_all

section \<open>Properties\<close>

subsection \<open>Relative mouse mode\<close>

text \<open>
  Claim C4. \<^verbatim>\<open>system_mouse_set_relative_mode\<close> called with the value that
  \<^verbatim>\<open>data.enabled\<close> already has changes nothing. Enabling (a non-zero value that
  differs from the stored one) stores the cursor position reported by
  \<^verbatim>\<open>SDL_GetMouseState\<close>, converted to \<^verbatim>\<open>int\<close> and adjusted by the screen scale
  percentage, stores the flag and switches relative mode on for the focused window.
  Disabling switches relative mode off and hands the stored position to
  \<^verbatim>\<open>system_set_mouse_position\<close> and then to \<^verbatim>\<open>mouse_set_position\<close>.
\<close>

theorem mouse_set_relative_mode:
  "(enabled = data_enabled (mouse s) \<longrightarrow> system_mouse_set_relative_mode env enabled s = s)
   \<and> (enabled \<noteq> data_enabled (mouse s) \<and> enabled \<noteq> 0 \<longrightarrow>
        mouse (system_mouse_set_relative_mode env enabled s)
          = \<lparr>data_x = calc_adjust_with_percentage env
                         (int_of_float (fst (r_SDL_GetMouseState env)))
                         (calc_percentage env 100 (platform_screen_get_scale env)),
             data_y = calc_adjust_with_percentage env
                         (int_of_float (snd (r_SDL_GetMouseState env)))
                         (calc_percentage env 100 (platform_screen_get_scale env)),
             data_enabled = enabled\<rparr>
        \<and> mouse_calls (system_mouse_set_relative_mode env enabled s)
          = mouse_calls s @ [SDL_GetMouseFocus, SDL_GetMouseState,
                             SDL_SetWindowRelativeMouseMode (r_SDL_GetMouseFocus env) True])
   \<and> (enabled \<noteq> data_enabled (mouse s) \<and> enabled = 0 \<longrightarrow>
        mouse_calls (system_mouse_set_relative_mode env enabled s)
          = mouse_calls s @ [SDL_GetMouseFocus,
                             SDL_SetWindowRelativeMouseMode (r_SDL_GetMouseFocus env) False,
                             System_set_mouse_position (data_x (mouse s)) (data_y (mouse s)),
                             Mouse_set_position
                               (fst (system_set_mouse_position env (data_x (mouse s), data_y (mouse s))))
                               (snd (system_set_mouse_position env (data_x (mouse s), data_y (mouse s))))]
        \<and> mouse (system_mouse_set_relative_mode env enabled s)
          = \<lparr>data_x = fst (system_set_mouse_position env (data_x (mouse s), data_y (mouse s))),
             data_y = snd (system_set_mouse_position env (data_x (mouse s), data_y (mouse s))),
             data_enabled = 0\<rparr>)"
  by (auto simp: system_mouse_get_relative_state_def system_mouse_set_relative_mode_def
        mouse_call_def Let_def split: prod.splits option.splits)

theorem mouse_set_relative_mode_witness:
  "system_mouse_set_relative_mode menv 0 mstate = mstate
   \<and> mouse (system_mouse_set_relative_mode menv 1 mstate)
       = \<lparr>data_x = 320, data_y = 240, data_enabled = 1\<rparr>
   \<and> mouse_calls (system_mouse_set_relative_mode menv 1 mstate)
       = [SDL_GetMouseFocus, SDL_GetMouseState, SDL_SetWindowRelativeMouseMode (Some 1) True]
   \<and> mouse_calls (system_mouse_set_relative_mode menv 0 (system_mouse_set_relative_mode menv 1 mstate))
       = [SDL_GetMouseFocus, SDL_GetMouseState, SDL_SetWindowRelativeMouseMode (Some 1) True,
          SDL_GetMouseFocus, SDL_SetWindowRelativeMouseMode (Some 1) False,
          System_set_mouse_position 320 240, Mouse_set_position 320 240]
   \<and> mouse (system_mouse_set_relative_mode menv 0 (system_mouse_set_relative_mode menv 1 mstate))
       = \<lparr>data_x = 320, data_y = 240, data_enabled = 0\<rparr>"
  using mouse_set_relative_mode [of 0 mstate menv]
        mouse_set_relative_mode [of 1 mstate menv]
        mouse_set_relative_mode [of 0 "system_mouse_set_relative_mode menv 1 mstate" menv]
  by (simp add: mstate_def menv_def int_of_float_def c_div_def)

text \<open>
  Claim C8. With a null pointer for either output, \<^verbatim>\<open>system_mouse_get_relative_state\<close>
  returns at once: no library call, no write, no reading consumed. The call with two
  null pointers made while enabling relative mode is such a call, so enabling leaves the
  pending relative readings and the memory as they were and the library is never asked
  for the relative state.
\<close>

theorem mouse_get_relative_state_null:
  "(x = None \<or> y = None \<longrightarrow> system_mouse_get_relative_state x y s = s)
   \<and> (enabled \<noteq> 0 \<and> enabled \<noteq> data_enabled (mouse s) \<longrightarrow>
        mouse_calls (system_mouse_set_relative_mode env enabled s)
          = mouse_calls s @ [SDL_GetMouseFocus, SDL_GetMouseState,
                             SDL_SetWindowRelativeMouseMode (r_SDL_GetMouseFocus env) True]
        \<and> relative_readings (system_mouse_set_relative_mode env enabled s) = relative_readings s
        \<and> memory (system_mouse_set_relative_mode env enabled s) = memory s)"
  by (auto simp: system_mouse_get_relative_state_def system_mouse_set_relative_mode_def
        mouse_call_def Let_def split: prod.splits option.splits)

theorem mouse_get_relative_state_null_witness:
  "system_mouse_get_relative_state None (Some 4) mstate = mstate
   \<and> system_mouse_get_relative_state None None mstate = mstate
   \<and> mouse_calls (system_mouse_set_relative_mode menv 1 mstate)
        = [SDL_GetMouseFocus, SDL_GetMouseState, SDL_SetWindowRelativeMouseMode (Some 1) True]
   \<and> relative_readings (system_mouse_set_relative_mode menv 1 mstate) = [(15, - 7), (1, 2)]
   \<and> relative_readings (system_mouse_get_relative_state (Some 0) (Some 1) mstate) = [(1, 2)]
   \<and> memory (system_mouse_get_relative_state (Some 0) (Some 1) mstate) 0 = 15
   \<and> memory (system_mouse_get_relative_state (Some 0) (Some 1) mstate) 1 = - 7"
  using mouse_get_relative_state_null [of None "Some 4" mstate 1 menv]
        mouse_get_relative_state_null [of None None mstate 1 menv]
  by (simp add: mstate_def menv_def system_mouse_get_relative_state_def mouse_call_def
        int_of_float_def)

subsection \<open>The custom music player\<close>

text \<open>
  Claim C7. \<^verbatim>\<open>sound_device_use_custom_music_player\<close> with a bit depth other than 8
  or 16 only logs the error: the custom-music struct (stream, format, destination
  format) and the library state (audio streams, music hook) stay as they were, and the
  call log gains the log message and nothing else, so no data is queued.
\<close>

theorem use_custom_music_player_unsupported_bitdepth:
  assumes "bitdepth \<noteq> 8" and "bitdepth \<noteq> 16"
  shows "sound_device_use_custom_music_player env bitdepth num_channels rate audio_data len s
           = s\<lparr>calls := calls s @ [Log_message ''Custom music bitdepth not supported:'']\<rparr>
       \<and> custom_music (sound_device_use_custom_music_player env bitdepth num_channels rate audio_data len s)
           = custom_music s
       \<and> lib (sound_device_use_custom_music_player env bitdepth num_channels rate audio_data len s)
           = lib s"
  using assms by (simp add: sound_device_use_custom_music_player_def call_def)

theorem use_custom_music_player_unsupported_bitdepth_witness:
  "(24::int) \<noteq> 8 \<and> (24::int) \<noteq> 16
   \<and> sound_device_use_custom_music_player env_ok 24 2 44100 (Some [1, 2, 3, 4]) 4 initial_state
       = initial_state\<lparr>calls := [Log_message ''Custom music bitdepth not supported:'']\<rparr>
   \<and> stream (custom_music
        (sound_device_use_custom_music_player env_ok 24 2 44100 (Some [1, 2, 3, 4]) 4 initial_state)) = None
   \<and> hook_installed (lib
        (sound_device_use_custom_music_player env_ok 24 2 44100 (Some [1, 2, 3, 4]) 4 initial_state)) = None"
  using use_custom_music_player_unsupported_bitdepth
          [of 24 env_ok 2 44100 "Some [1, 2, 3, 4]" 4 initial_state]
  by (simp add: initial_state_def)

subsection \<open>The seek function of the stream over a file handle\<close>

text \<open>
  Claim C5. \<^verbatim>\<open>stdio_seek\<close> maps \<^verbatim>\<open>SDL_IO_SEEK_SET\<close>, \<^verbatim>\<open>SDL_IO_SEEK_CUR\<close> and
  \<^verbatim>\<open>SDL_IO_SEEK_END\<close> to \<^verbatim>\<open>SEEK_SET\<close>, \<^verbatim>\<open>SEEK_CUR\<close> and \<^verbatim>\<open>SEEK_END\<close>:
  the first call it makes is \<^verbatim>\<open>fseek\<close> on the file of the stream with that value.
  When \<^verbatim>\<open>fseek\<close> returns 0 and \<^verbatim>\<open>ftell\<close> a non-negative offset, that offset is the
  result; when either fails the result is \<open>-1\<close>. For every other \<^verbatim>\<open>whence\<close> the result
  is \<open>-1\<close> and the only call is \<^verbatim>\<open>SDL_SetError\<close>: no seek is performed.
  \<^verbatim>\<open>SDL_RWFromFP\<close> opens the stream with \<^verbatim>\<open>stdio_seek\<close> as its seek function.
\<close>

theorem stdio_seek_whence:
  "(whence = SDL_IO_SEEK_SET \<and> w = SEEK_SET \<or> whence = SDL_IO_SEEK_CUR \<and> w = SEEK_CUR
      \<or> whence = SDL_IO_SEEK_END \<and> w = SEEK_END \<longrightarrow>
      (\<exists>rest. snd (stdio_seek env userdata offset whence tr)
          = tr @ Fseek (fp userdata) (fseek_off_t env offset) w
                   (r_fseek env (fp userdata) (fseek_off_t env offset) w) # rest)
      \<and> (r_fseek env (fp userdata) (fseek_off_t env offset) w = 0 \<and> 0 \<le> r_ftell env (fp userdata) \<longrightarrow>
            stdio_seek env userdata offset whence tr
              = (r_ftell env (fp userdata),
                 tr @ [Fseek (fp userdata) (fseek_off_t env offset) w 0,
                       Ftell (fp userdata) (r_ftell env (fp userdata))]))
      \<and> (r_fseek env (fp userdata) (fseek_off_t env offset) w \<noteq> 0 \<or> r_ftell env (fp userdata) < 0 \<longrightarrow>
            fst (stdio_seek env userdata offset whence tr) = - 1))
   \<and> (whence \<noteq> SDL_IO_SEEK_SET \<and> whence \<noteq> SDL_IO_SEEK_CUR \<and> whence \<noteq> SDL_IO_SEEK_END \<longrightarrow>
        stdio_seek env userdata offset whence tr
          = (- 1, tr @ [SDL_SetError ''Unknown value for whence'']))
   \<and> (r_SDL_malloc env \<and> r_SDL_OpenIO env = Some strm \<longrightarrow>
        SDL_RWFromFP env file auto tr
          = (Some strm,
             tr @ [SDL_malloc True,
                   SDL_OpenIO \<lparr>iface_seek = Some Stdio_seek, iface_read = Some Stdio_read,
                                iface_write = Some Stdio_write, iface_close = Some Stdio_close\<rparr>
                              \<lparr>fp = file, autoclose = auto\<rparr> (Some strm)])
        \<and> io_seek (Some Stdio_seek) env \<lparr>fp = file, autoclose = auto\<rparr> offset whence tr
          = stdio_seek env \<lparr>fp = file, autoclose = auto\<rparr> offset whence tr)"
  by (auto simp: stdio_seek_def SDL_RWFromFP_def Let_def SDL_IO_SEEK_SET_def SDL_IO_SEEK_CUR_def
        SDL_IO_SEEK_END_def)

theorem stdio_seek_whence_witness:
  "stdio_seek senv \<lparr>fp = 1, autoclose = True\<rparr> 10 SDL_IO_SEEK_SET []
     = (42, [Fseek 1 10 SEEK_SET 0, Ftell 1 42])
   \<and> stdio_seek senv \<lparr>fp = 1, autoclose = True\<rparr> 10 SDL_IO_SEEK_CUR []
     = (42, [Fseek 1 10 SEEK_CUR 0, Ftell 1 42])
   \<and> stdio_seek senv \<lparr>fp = 1, autoclose = True\<rparr> 10 SDL_IO_SEEK_END []
     = (42, [Fseek 1 10 SEEK_END 0, Ftell 1 42])
   \<and> fst (stdio_seek senv \<lparr>fp = 1, autoclose = True\<rparr> (- 5) SDL_IO_SEEK_CUR []) = - 1
   \<and> stdio_seek senv \<lparr>fp = 1, autoclose = True\<rparr> 10 3 []
     = (- 1, [SDL_SetError ''Unknown value for whence''])
   \<and> stdio_seek senv \<lparr>fp = 1, autoclose = True\<rparr> 10 (- 1) []
     = (- 1, [SDL_SetError ''Unknown value for whence''])
   \<and> fst (SDL_RWFromFP senv 1 True []) = Some 9"
  using stdio_seek_whence [of SDL_IO_SEEK_SET SEEK_SET senv "\<lparr>fp = 1, autoclose = True\<rparr>" 10 "[]" 9 1 True]
        stdio_seek_whence [of SDL_IO_SEEK_CUR SEEK_CUR senv "\<lparr>fp = 1, autoclose = True\<rparr>" 10 "[]" 9 1 True]
        stdio_seek_whence [of SDL_IO_SEEK_END SEEK_END senv "\<lparr>fp = 1, autoclose = True\<rparr>" 10 "[]" 9 1 True]
        stdio_seek_whence [of SDL_IO_SEEK_CUR SEEK_CUR senv "\<lparr>fp = 1, autoclose = True\<rparr>" "- 5" "[]" 9 1 True]
        stdio_seek_whence [of 3 SEEK_SET senv "\<lparr>fp = 1, autoclose = True\<rparr>" 10 "[]" 9 1 True]
        stdio_seek_whence [of "- 1" SEEK_SET senv "\<lparr>fp = 1, autoclose = True\<rparr>" 10 "[]" 9 1 True]
  by (simp add: senv_def SDL_IO_SEEK_SET_def SDL_IO_SEEK_CUR_def SDL_IO_SEEK_END_def)

subsection \<open>The channel table\<close>

text \<open>
  Claim C9. None of the six channel operations checks the channel number. On a table of
  150 slots, a channel number in \<open>0..149\<close> never leads to an access outside the table.
  A channel number outside that range always does in \<^verbatim>\<open>sound_device_is_channel_playing\<close>
  and \<^verbatim>\<open>sound_device_set_channel_volume\<close>, and does in the other four whenever the
  device is initialised (they do nothing otherwise).
\<close>

theorem channel_operations_unchecked:
  assumes "table_ok s"
  shows "(0 \<le> channel \<and> channel < 150 \<longrightarrow>
            sound_device_is_channel_playing env channel s \<noteq> Inl ChannelOutOfBounds
          \<and> sound_device_set_channel_volume channel volume_pct s \<noteq> Inl ChannelOutOfBounds
          \<and> sound_device_play_file_on_channel env fname channel volume_pct s \<noteq> Inl ChannelOutOfBounds
          \<and> sound_device_play_channel env channel volume_pct s \<noteq> Inl ChannelOutOfBounds
          \<and> sound_device_play_channel_panned env channel volume_pct left_pct right_pct s
               \<noteq> Inl ChannelOutOfBounds
          \<and> sound_device_stop_channel channel s \<noteq> Inl ChannelOutOfBounds)
       \<and> (\<not> (0 \<le> channel \<and> channel < 150) \<longrightarrow>
            sound_device_is_channel_playing env channel s = Inl ChannelOutOfBounds
          \<and> sound_device_set_channel_volume channel volume_pct s = Inl ChannelOutOfBounds
          \<and> (initialized (data s) \<noteq> 0 \<longrightarrow>
                sound_device_play_file_on_channel env fname channel volume_pct s = Inl ChannelOutOfBounds
              \<and> sound_device_play_channel env channel volume_pct s = Inl ChannelOutOfBounds
              \<and> sound_device_play_channel_panned env channel volume_pct left_pct right_pct s
                   = Inl ChannelOutOfBounds
              \<and> sound_device_stop_channel channel s = Inl ChannelOutOfBounds))"
proof (intro conjI impI)
  assume "0 \<le> channel \<and> channel < 150"
  with assms have t: "in_table s channel" by (simp add: in_table_iff)
  show "sound_device_is_channel_playing env channel s \<noteq> Inl ChannelOutOfBounds"
    using t by (rule is_channel_playing_in_range)
  show "sound_device_set_channel_volume channel volume_pct s \<noteq> Inl ChannelOutOfBounds"
    using set_channel_volume_in_range [OF t, of volume_pct] by auto
  show "sound_device_stop_channel channel s \<noteq> Inl ChannelOutOfBounds"
    using stop_channel_in_range [OF t] by auto
  show "sound_device_play_file_on_channel env fname channel volume_pct s \<noteq> Inl ChannelOutOfBounds"
    using t by (rule play_file_on_channel_in_range)
  show "sound_device_play_channel env channel volume_pct s \<noteq> Inl ChannelOutOfBounds"
    using t by (rule play_channel_in_range)
  show "sound_device_play_channel_panned env channel volume_pct left_pct right_pct s
               \<noteq> Inl ChannelOutOfBounds"
    using t by (rule play_channel_panned_in_range)
next
  assume "\<not> (0 \<le> channel \<and> channel < 150)"
  with assms have t: "\<not> in_table s channel" by (simp add: in_table_iff)
  show "sound_device_is_channel_playing env channel s = Inl ChannelOutOfBounds"
    using t by (simp add: sound_device_is_channel_playing_def)
  show "sound_device_set_channel_volume channel volume_pct s = Inl ChannelOutOfBounds"
    using t by (simp add: sound_device_set_channel_volume_def)
  assume i: "initialized (data s) \<noteq> 0"
  show sc: "sound_device_stop_channel channel s = Inl ChannelOutOfBounds"
    using t i by (rule stop_channel_outside)
  show "sound_device_play_file_on_channel env fname channel volume_pct s = Inl ChannelOutOfBounds"
    using sc i by (simp add: sound_device_play_file_on_channel_def)
  have lc: "load_channel env channel s = Inl ChannelOutOfBounds"
    using t by (simp add: load_channel_def)
  show "sound_device_play_channel env channel volume_pct s = Inl ChannelOutOfBounds"
    using lc i by (simp add: sound_device_play_channel_def)
  show "sound_device_play_channel_panned env channel volume_pct left_pct right_pct s
          = Inl ChannelOutOfBounds"
    using lc i by (simp add: sound_device_play_channel_panned_def)
qed

theorem channel_operations_unchecked_witness:
  "table_ok (after ops_open) \<and> initialized (data (after ops_open)) \<noteq> 0
   \<and> sound_device_is_channel_playing env_ok 149 (after ops_open) \<noteq> Inl ChannelOutOfBounds
   \<and> sound_device_play_channel env_ok 0 100 (after ops_open) \<noteq> Inl ChannelOutOfBounds
   \<and> sound_device_stop_channel 149 (after ops_open) \<noteq> Inl ChannelOutOfBounds
   \<and> sound_device_is_channel_playing env_ok 150 (after ops_open) = Inl ChannelOutOfBounds
   \<and> sound_device_set_channel_volume 150 100 (after ops_open) = Inl ChannelOutOfBounds
   \<and> sound_device_play_file_on_channel env_ok (Some ''wavs/a.wav'') 150 100 (after ops_open)
       = Inl ChannelOutOfBounds
   \<and> sound_device_play_channel env_ok (- 1) 100 (after ops_open) = Inl ChannelOutOfBounds
   \<and> sound_device_play_channel_panned env_ok (- 1) 100 50 50 (after ops_open) = Inl ChannelOutOfBounds
   \<and> sound_device_stop_channel (- 1) (after ops_open) = Inl ChannelOutOfBounds
   \<and> sound_device_is_channel_playing env_ok 150 initial_state = Inl ChannelOutOfBounds
   \<and> sound_device_stop_channel 150 initial_state = Inr initial_state"
proof -
  have a: "table_ok (after ops_open)" by code_simp
  have b: "initialized (data (after ops_open)) \<noteq> 0" by code_simp
  have c: "table_ok initial_state" using initial_state_ok by simp
  have d: "sound_device_stop_channel 150 initial_state = Inr initial_state"
    by (simp add: sound_device_stop_channel_def initial_state_def)
  note t1 = channel_operations_unchecked [OF a, where channel = 149 and env = env_ok]
  note t2 = channel_operations_unchecked [OF a, where channel = 0 and env = env_ok
              and volume_pct = 100]
  note t3 = channel_operations_unchecked [OF a, where channel = 150 and env = env_ok
              and volume_pct = 100 and fname = "Some ''wavs/a.wav''"]
  note t4 = channel_operations_unchecked [OF a, where channel = "- 1" and env = env_ok
              and volume_pct = 100 and left_pct = 50 and right_pct = 50]
  note t5 = channel_operations_unchecked [OF c, where channel = 150 and env = env_ok]
  from a b d t1 t2 t3 t4 t5 show ?thesis by simp
qed

text \<open>
  Claim C1, as amended. For \<open>num_channels > 150\<close> (and a \<^verbatim>\<open>filenames\<close> array with at
  least 150 rows) \<^verbatim>\<open>sound_device_init_channels\<close> does nothing on a device that is not
  initialised; on an initialised device it allocates exactly 150 channels and fills the
  150 slots from the first 150 rows, and the result is the one of the call with 150 and
  only those rows. The table always has 150 slots. An operation uses a slot beyond the
  table only when it is handed a channel number outside \<open>0..149\<close>: the operations that
  walk the table never do, and the operations that take a channel number do not check it.
\<close>

theorem init_channels_clamped:
  assumes "table_ok s" and "150 < num_channels" and "150 \<le> length filenames"
  shows "(initialized (data s) = 0 \<longrightarrow>
            sound_device_init_channels num_channels filenames s = Inr s)
       \<and> (initialized (data s) \<noteq> 0 \<longrightarrow>
            (\<exists>s'. sound_device_init_channels num_channels filenames s = Inr s'
               \<and> calls s' = calls s @ [Mix_AllocateChannels 150, Log_message ''Loading audio files'']
               \<and> allocated_channels (lib s') = 150
               \<and> length (channels (data s')) = 150
               \<and> (\<forall>k<150. channels (data s') ! k
                     = \<lparr>filename = (if filenames ! k \<noteq> [] then Some (filenames ! k) else None),
                        chunk = None\<rparr>)))
       \<and> sound_device_init_channels num_channels filenames s
            = sound_device_init_channels 150 (take 150 filenames) s
       \<and> (channel_args_ok opn \<longrightarrow> exec env opn s \<noteq> Inl ChannelOutOfBounds)
       \<and> (exec env opn s = Inr s1 \<longrightarrow> table_ok s1)
       \<and> (run ops initial_state = Inr s2 \<longrightarrow> table_ok s2)"
proof (intro conjI impI)
  assume "initialized (data s) = 0"
  then show "sound_device_init_channels num_channels filenames s = Inr s"
    by (simp add: sound_device_init_channels_def)
next
  assume i: "initialized (data s) \<noteq> 0"
  let ?s2 = "call (Log_message ''Loading audio files'') (call (Mix_AllocateChannels 150) s)"
  have len: "length (channels (data s)) = 150"
    using assms(1) by (simp add: table_ok_def MAX_CHANNELS_def)
  have "table_ok ?s2" using assms(1) by simp
  from init_filenames_loop_result [OF _ _ _ this, of 0 150 filenames] assms(3)
  obtain s' where s': "init_filenames_loop filenames 0 150 ?s2 = Inr s'"
      "lib s' = lib ?s2" "calls s' = calls ?s2"
      "length (channels (data s')) = length (channels (data ?s2))"
      "\<forall>k < length (channels (data ?s2)).
              channels (data s') ! k
                = (if 0 \<le> int k \<and> int k < 150
                   then \<lparr>filename = (if filenames ! k \<noteq> [] then Some (filenames ! k) else None),
                         chunk = None\<rparr>
                   else channels (data ?s2) ! k)"
    by (auto simp: MAX_CHANNELS_def)
  have "sound_device_init_channels num_channels filenames s = Inr s'"
    using i assms(2) s'(1) by (simp add: sound_device_init_channels_def MAX_CHANNELS_def)
  moreover have "calls s' = calls s @ [Mix_AllocateChannels 150, Log_message ''Loading audio files'']"
    using s'(3) by simp
  moreover have "allocated_channels (lib s') = 150" using s'(2) by simp
  moreover have "length (channels (data s')) = 150" using s'(4) len by simp
  moreover have "\<forall>k<150. channels (data s') ! k
                     = \<lparr>filename = (if filenames ! k \<noteq> [] then Some (filenames ! k) else None),
                        chunk = None\<rparr>"
    using s'(5) len by simp
  ultimately show "\<exists>s'. sound_device_init_channels num_channels filenames s = Inr s'
               \<and> calls s' = calls s @ [Mix_AllocateChannels 150, Log_message ''Loading audio files'']
               \<and> allocated_channels (lib s') = 150
               \<and> length (channels (data s')) = 150
               \<and> (\<forall>k<150. channels (data s') ! k
                     = \<lparr>filename = (if filenames ! k \<noteq> [] then Some (filenames ! k) else None),
                        chunk = None\<rparr>)"
    by blast
next
  show "sound_device_init_channels num_channels filenames s
            = sound_device_init_channels 150 (take 150 filenames) s"
    using assms(2) init_filenames_loop_take [of 150 150 filenames 0]
    by (simp add: sound_device_init_channels_def MAX_CHANNELS_def)
next
  assume "channel_args_ok opn"
  with assms(1) show "exec env opn s \<noteq> Inl ChannelOutOfBounds" by (rule exec_no_oob)
next
  assume "exec env opn s = Inr s1"
  with assms(1) show "table_ok s1" by (rule exec_table_ok)
next
  assume r: "run ops initial_state = Inr s2"
  from run_invariants [OF _ _ _ r] initial_state_ok show "table_ok s2" by blast
qed

theorem init_channels_clamped_witness:
  "table_ok (after ops_open) \<and> (150::int) < 200 \<and> 150 \<le> length names_200
   \<and> initialized (data (after ops_open)) \<noteq> 0
   \<and> sound_device_init_channels 200 names_200 (after ops_open)
       = sound_device_init_channels 150 (take 150 names_200) (after ops_open)
   \<and> (case sound_device_init_channels 200 names_200 (after ops_open) of
         Inl e \<Rightarrow> False
       | Inr s' \<Rightarrow>
           allocated_channels (lib s') = 150
           \<and> length (channels (data s')) = 150
           \<and> channels (data s') ! 99 = \<lparr>filename = Some ''wavs/a.wav'', chunk = None\<rparr>
           \<and> channels (data s') ! 149 = \<lparr>filename = None, chunk = None\<rparr>)
   \<and> exec env_ok (Stop_channel 149) (after ops_open) \<noteq> Inl ChannelOutOfBounds
   \<and> run ops_open initial_state = Inr (after ops_open)"
proof -
  have a: "table_ok (after ops_open)" by code_simp
  have b: "150 \<le> length names_200" by (simp add: names_200_def)
  have c: "initialized (data (after ops_open)) \<noteq> 0" by code_simp
  have d: "run ops_open initial_state = Inr (after ops_open)" by code_simp
  have e: "channel_args_ok (Stop_channel 149)" by (simp add: MAX_CHANNELS_def)
  have f: "names_200 ! 99 = ''wavs/a.wav''" "names_200 ! 149 = []" by code_simp+
  have n: "(150::int) < 200" by simp
  note t = init_channels_clamped [OF a n b, where opn = "Stop_channel 149"
             and env = env_ok and ops = ops_open and ?s2.0 = "after ops_open"
             and ?s1.0 = "after ops_open"]
  from t [THEN conjunct2, THEN conjunct1] c obtain s' where s': "sound_device_init_channels 200 names_200 (after ops_open) = Inr s'"
      "allocated_channels (lib s') = 150" "length (channels (data s')) = 150"
      "\<forall>k<150. channels (data s') ! k
           = \<lparr>filename = (if names_200 ! k \<noteq> [] then Some (names_200 ! k) else None), chunk = None\<rparr>"
    by blast
  from s'(4) f have g: "channels (data s') ! 99 = \<lparr>filename = Some ''wavs/a.wav'', chunk = None\<rparr>"
      "channels (data s') ! 149 = \<lparr>filename = None, chunk = None\<rparr>"
    by simp_all
  from t have h: "sound_device_init_channels 200 names_200 (after ops_open)
       = sound_device_init_channels 150 (take 150 names_200) (after ops_open)" by blast
  from t e have i: "exec env_ok (Stop_channel 149) (after ops_open) \<noteq> Inl ChannelOutOfBounds"
    by blast
  from s' g have cs: "(case sound_device_init_channels 200 names_200 (after ops_open) of
         Inl e \<Rightarrow> False
       | Inr s' \<Rightarrow>
           allocated_channels (lib s') = 150
           \<and> length (channels (data s')) = 150
           \<and> channels (data s') ! 99 = \<lparr>filename = Some ''wavs/a.wav'', chunk = None\<rparr>
           \<and> channels (data s') ! 149 = \<lparr>filename = None, chunk = None\<rparr>)"
    by simp
  from a n b c h cs i d show ?thesis by blast
qed

text \<open>
  Counterexample to C1 as stated (no operation ever uses a slot beyond the table):
  after \<^verbatim>\<open>sound_device_open\<close>, \<^verbatim>\<open>sound_device_stop_channel(150)\<close> reads
  \<^verbatim>\<open>data.channels[150]\<close>.
\<close>

theorem stop_channel_150_leaves_table:
  "run [(env_ok, Open), (env_ok, Stop_channel 150)] initial_state = Inl ChannelOutOfBounds"
  by code_simp

subsection \<open>The music handle\<close>

text \<open>
  Claim C2, as amended. On an initialised device \<^verbatim>\<open>sound_device_stop_music\<close> halts and
  frees the stored music and clears the handle, and \<^verbatim>\<open>sound_device_play_music\<close> does
  so before it loads the new file. On a device that is not initialised both leave the
  state as it is. Every operation preserves \<open>music_inv\<close>, and every run from the initial
  state ends in a state that satisfies it: the stored handle refers to a loaded track and
  no other track is playing.
\<close>

theorem single_music_handle:
  "(initialized (data s) \<noteq> 0 \<longrightarrow>
      music (data (sound_device_stop_music s)) = None
      \<and> calls (sound_device_stop_music s)
          = calls s @ (case music (data s) of None \<Rightarrow> [] | Some m \<Rightarrow> [Mix_HaltMusic, Mix_FreeMusic m])
      \<and> (\<exists>rest. calls (snd (sound_device_play_music env (Some f) volume_pct s))
            = calls s
              @ (case music (data s) of None \<Rightarrow> [] | Some m \<Rightarrow> [Mix_HaltMusic, Mix_FreeMusic m])
              @ Mix_LoadMUS f (r_Mix_LoadMUS env f) # rest))
   \<and> (initialized (data s) = 0 \<longrightarrow>
        sound_device_stop_music s = s
        \<and> sound_device_play_music env fname volume_pct s = (0, s))
   \<and> (table_ok s \<and> music_inv s \<and> exec env opn s = Inr s' \<longrightarrow> music_inv s')
   \<and> (run ops initial_state = Inr s'' \<longrightarrow> music_inv s'')"
proof (intro conjI impI)
  assume i: "initialized (data s) \<noteq> 0"
  then show "music (data (sound_device_stop_music s)) = None"
    by (rule stop_music_cleared)
  show c: "calls (sound_device_stop_music s)
          = calls s @ (case music (data s) of None \<Rightarrow> [] | Some m \<Rightarrow> [Mix_HaltMusic, Mix_FreeMusic m])"
    using i by (simp add: sound_device_stop_music_def split: option.splits)
  have "\<exists>rest. calls (snd (sound_device_play_music env (Some f) volume_pct s))
            = calls (sound_device_stop_music s) @ Mix_LoadMUS f (r_Mix_LoadMUS env f) # rest"
    using i
    by (cases "r_Mix_LoadMUS env f")
       (simp_all add: sound_device_play_music_def Let_def sound_device_set_music_volume_def)
  then show "\<exists>rest. calls (snd (sound_device_play_music env (Some f) volume_pct s))
            = calls s
              @ (case music (data s) of None \<Rightarrow> [] | Some m \<Rightarrow> [Mix_HaltMusic, Mix_FreeMusic m])
              @ Mix_LoadMUS f (r_Mix_LoadMUS env f) # rest"
    unfolding c by simp
next
  assume "initialized (data s) = 0"
  then show "sound_device_stop_music s = s"
    and "sound_device_play_music env fname volume_pct s = (0, s)"
    by (simp_all add: sound_device_stop_music_def sound_device_play_music_def)
next
  assume "table_ok s \<and> music_inv s \<and> exec env opn s = Inr s'"
  then show "music_inv s'" by (blast intro: exec_music_inv)
next
  assume r: "run ops initial_state = Inr s''"
  from run_invariants [OF _ _ _ r] initial_state_ok show "music_inv s''" by blast
qed

theorem single_music_handle_witness:
  "initialized (data (after ops_play)) \<noteq> 0
   \<and> music (data (after ops_play)) = Some 3
   \<and> music (data (sound_device_stop_music (after ops_play))) = None
   \<and> calls (sound_device_stop_music (after ops_play))
       = calls (after ops_play) @ [Mix_HaltMusic, Mix_FreeMusic 3]
   \<and> initialized (data initial_state) = 0
   \<and> sound_device_stop_music initial_state = initial_state
   \<and> sound_device_play_music env_ok (Some ''track.mp3'') 100 initial_state = (0, initial_state)
   \<and> run ops_play_twice initial_state = Inr (after ops_play_twice)
   \<and> music_inv (after ops_play_twice)
   \<and> table_ok (after ops_play) \<and> music_inv (after ops_play)
   \<and> music_inv (sound_device_stop_music (after ops_play))"
proof -
  have a: "initialized (data (after ops_play)) \<noteq> 0" by code_simp
  have b: "music (data (after ops_play)) = Some 3" by code_simp
  have c: "initialized (data initial_state) = 0" by code_simp
  have d: "run ops_play_twice initial_state = Inr (after ops_play_twice)" by code_simp
  have e: "run ops_play initial_state = Inr (after ops_play)" by code_simp
  have f: "table_ok (after ops_play)" by code_simp
  have g: "exec env_ok Stop_music (after ops_play) = Inr (sound_device_stop_music (after ops_play))"
    by simp
  note t1 = single_music_handle
    [where s = "after ops_play" and env = env_ok and f = "''other.mp3''" and volume_pct = 80
       and fname = None and opn = Stop_music and s' = "sound_device_stop_music (after ops_play)"
       and ops = ops_play_twice and s'' = "after ops_play_twice"]
  note t2 = single_music_handle
    [where s = initial_state and env = env_ok and f = "''track.mp3''" and volume_pct = 100
       and fname = "Some ''track.mp3''" and opn = Stop_music and s' = initial_state
       and ops = ops_play and s'' = "after ops_play"]
  from t1 a b have h: "music (data (sound_device_stop_music (after ops_play))) = None"
    "calls (sound_device_stop_music (after ops_play))
       = calls (after ops_play) @ [Mix_HaltMusic, Mix_FreeMusic 3]"
    by simp_all
  from t2 c have i: "sound_device_stop_music initial_state = initial_state"
    "sound_device_play_music env_ok (Some ''track.mp3'') 100 initial_state = (0, initial_state)"
    by simp_all
  from t1 d have j: "music_inv (after ops_play_twice)" by blast
  from t2 e have k: "music_inv (after ops_play)" by blast
  from t1 f k g have l: "music_inv (sound_device_stop_music (after ops_play))" by blast
  from a b c d f h i j k l show ?thesis by simp
qed

text \<open>
  Counterexample to C2 as stated (\<^verbatim>\<open>sound_device_stop_music\<close> leaves the handle
  cleared): \<^verbatim>\<open>sound_device_close\<close> resets \<^verbatim>\<open>data.initialized\<close> and keeps the stored
  handle, and \<^verbatim>\<open>sound_device_stop_music\<close> after it changes nothing.
\<close>

theorem stop_music_after_close_keeps_handle:
  "(case run ops_play_close_stop initial_state of
      Inl e \<Rightarrow> None
    | Inr s \<Rightarrow> Some (initialized (data s), music (data s))) = Some (0, Some 3)"
  by code_simp

subsection \<open>The custom audio stream\<close>

text \<open>
  Claim C6. \<^verbatim>\<open>create_custom_audio_stream\<close> destroys the stream the struct points to
  before it creates the new one and stores the result; \<^verbatim>\<open>sound_device_use_default_music_player\<close>
  removes the hook, destroys the stream and clears the pointer. Every operation preserves
  \<open>stream_inv\<close>, and in every state reached from the initial state at most one audio
  stream exists, the one the struct points to.
\<close>

theorem single_custom_audio_stream:
  "calls (snd (create_custom_audio_stream env sf sc sr df dc dr s))
     = calls s
       @ (case stream (custom_music s) of None \<Rightarrow> [] | Some st \<Rightarrow> [SDL_DestroyAudioStream st])
       @ [SDL_CreateAudioStream (SDL_AudioSpec sr sf (Uint8 sc)) (SDL_AudioSpec dr df (Uint8 dc))
            (r_SDL_CreateAudioStream env (SDL_AudioSpec sr sf (Uint8 sc))
               (SDL_AudioSpec dr df (Uint8 dc)))]
   \<and> stream (custom_music (snd (create_custom_audio_stream env sf sc sr df dc dr s)))
     = r_SDL_CreateAudioStream env (SDL_AudioSpec sr sf (Uint8 sc)) (SDL_AudioSpec dr df (Uint8 dc))
   \<and> (stream_inv s \<longrightarrow> stream_inv (snd (create_custom_audio_stream env sf sc sr df dc dr s)))
   \<and> calls (sound_device_use_default_music_player s)
     = calls s @ Mix_HookMusic None
         # (case stream (custom_music s) of None \<Rightarrow> [] | Some st \<Rightarrow> [SDL_DestroyAudioStream st])
   \<and> stream (custom_music (sound_device_use_default_music_player s)) = None
   \<and> (stream_inv s \<longrightarrow> audio_streams (lib (sound_device_use_default_music_player s)) = [])
   \<and> (table_ok s \<and> stream_inv s \<and> exec env opn s = Inr s' \<longrightarrow> stream_inv s')
   \<and> (run ops initial_state = Inr s'' \<longrightarrow>
         stream_inv s'' \<and> length (audio_streams (lib s'')) \<le> 1)"
proof (intro conjI impI)
  show "calls (snd (create_custom_audio_stream env sf sc sr df dc dr s))
     = calls s
       @ (case stream (custom_music s) of None \<Rightarrow> [] | Some st \<Rightarrow> [SDL_DestroyAudioStream st])
       @ [SDL_CreateAudioStream (SDL_AudioSpec sr sf (Uint8 sc)) (SDL_AudioSpec dr df (Uint8 dc))
            (r_SDL_CreateAudioStream env (SDL_AudioSpec sr sf (Uint8 sc))
               (SDL_AudioSpec dr df (Uint8 dc)))]"
    by (simp add: create_custom_audio_stream_def Let_def free_custom_audio_stream_def
          split: option.splits)
  show "stream (custom_music (snd (create_custom_audio_stream env sf sc sr df dc dr s)))
     = r_SDL_CreateAudioStream env (SDL_AudioSpec sr sf (Uint8 sc)) (SDL_AudioSpec dr df (Uint8 dc))"
    by (simp add: create_custom_audio_stream_def Let_def)
  show "calls (sound_device_use_default_music_player s)
     = calls s @ Mix_HookMusic None
         # (case stream (custom_music s) of None \<Rightarrow> [] | Some st \<Rightarrow> [SDL_DestroyAudioStream st])"
    by (simp add: sound_device_use_default_music_player_def free_custom_audio_stream_def
          split: option.splits)
  show "stream (custom_music (sound_device_use_default_music_player s)) = None"
    by (simp add: sound_device_use_default_music_player_def free_custom_audio_stream_def
          split: option.splits)
next
  assume "stream_inv s"
  then show "stream_inv (snd (create_custom_audio_stream env sf sc sr df dc dr s))"
    by (rule create_custom_audio_stream_inv)
next
  assume "stream_inv s"
  from use_default_music_player_inv [OF this]
  show "audio_streams (lib (sound_device_use_default_music_player s)) = []" by simp
next
  assume "table_ok s \<and> stream_inv s \<and> exec env opn s = Inr s'"
  then show "stream_inv s'" by (blast intro: exec_stream_inv)
next
  assume r: "run ops initial_state = Inr s''"
  from run_invariants [OF _ _ _ r] initial_state_ok show i: "stream_inv s''" by blast
  then show "length (audio_streams (lib s'')) \<le> 1"
    by (simp add: stream_inv_def split: option.splits)
qed

theorem single_custom_audio_stream_witness:
  "stream_inv initial_state \<and> table_ok initial_state
   \<and> run ops_custom_twice initial_state
       = Inr (sound_device_use_custom_music_player env_ok 16 2 44100 (Some [1, 2, 3, 4]) 4
               (sound_device_use_custom_music_player env_ok 8 1 22050 None 0 initial_state))
   \<and> stream_inv (sound_device_use_custom_music_player env_ok 16 2 44100 (Some [1, 2, 3, 4]) 4
               (sound_device_use_custom_music_player env_ok 8 1 22050 None 0 initial_state))
   \<and> stream_inv (sound_device_use_custom_music_player env_ok 8 1 22050 None 0 initial_state)
   \<and> audio_streams (lib (sound_device_use_custom_music_player env_ok 8 1 22050 None 0 initial_state)) = [5]
   \<and> audio_streams (lib (sound_device_use_default_music_player
        (sound_device_use_custom_music_player env_ok 8 1 22050 None 0 initial_state))) = []"
  using single_custom_audio_stream
          [of env_ok SDL_AUDIO_U8 1 22050 SDL_AUDIO_S16LE 2 22050 initial_state
              "Use_custom_music_player 8 1 22050 None 0"
              "sound_device_use_custom_music_player env_ok 8 1 22050 None 0 initial_state"
              ops_custom_twice
              "sound_device_use_custom_music_player env_ok 16 2 44100 (Some [1, 2, 3, 4]) 4
                 (sound_device_use_custom_music_player env_ok 8 1 22050 None 0 initial_state)"]
        single_custom_audio_stream
          [of env_ok SDL_AUDIO_U8 1 22050 SDL_AUDIO_S16LE 2 22050
              "sound_device_use_custom_music_player env_ok 8 1 22050 None 0 initial_state"]
        initial_state_ok
  by (simp add: ops_custom_twice_def)
     (simp add: sound_device_use_custom_music_player_def create_custom_audio_stream_def
        free_custom_audio_stream_def sound_device_write_custom_music_data_def
        custom_audio_stream_active_def put_custom_audio_stream_def env_ok_def Let_def
        initial_state_def stream_inv_def call_def set_stream_def set_format_def
        set_dst_format_def)

text \<open>
  Claim C3, as amended. For a bit depth of 8 or 16, \<^verbatim>\<open>sound_device_use_custom_music_player\<close>
  asks the mixer for the device format, destroys the stream it holds, and creates a
  stream from the caller's format to the device format; the caller's channel count
  reaches the stream as a \<^verbatim>\<open>Uint8\<close>, that is modulo 256, and is the caller's own
  number for \<open>0..255\<close>. When the stream was created it queues the samples (for a
  non-null buffer and a positive length) and installs \<^verbatim>\<open>custom_music_callback\<close> as
  the music hook. The callback, run on a state with a stream, writes silence to the
  output, pulls converted samples from that stream and mixes them into the output.
  \<^verbatim>\<open>sound_device_use_default_music_player\<close> removes the hook and destroys the stream.
\<close>

theorem custom_music_player_mode:
  assumes "bitdepth = 8 \<or> bitdepth = 16"
    and "fmt = (if bitdepth = 8 then SDL_AUDIO_U8 else SDL_AUDIO_S16)"
    and "r_Mix_QuerySpec env = (device_rate, device_format, device_channels)"
    and "src = SDL_AudioSpec rate fmt (Uint8 num_channels)"
    and "dst = SDL_AudioSpec device_rate device_format (Uint8 device_channels)"
    and "r = r_SDL_CreateAudioStream env src dst"
    and "s' = sound_device_use_custom_music_player env bitdepth num_channels rate audio_data len s"
  shows "calls s'
           = calls s @ Mix_QuerySpec
               # (case stream (custom_music s) of None \<Rightarrow> []
                  | Some old \<Rightarrow> [SDL_DestroyAudioStream old])
               @ SDL_CreateAudioStream src dst r
               # (case r of
                    None \<Rightarrow> []
                  | Some st \<Rightarrow>
                      (case audio_data of
                         None \<Rightarrow> []
                       | Some bytes \<Rightarrow>
                           if 0 < len then [SDL_PutAudioStreamData st bytes len] else [])
                      @ [Mix_HookMusic (Some Custom_music_callback)])
       \<and> custom_music s' = \<lparr>format = fmt, dst_format = device_format, stream = r\<rparr>
       \<and> hook_installed (lib s')
           = (if r = None then hook_installed (lib s) else Some Custom_music_callback)
       \<and> (0 \<le> num_channels \<and> num_channels < 256 \<longrightarrow> Uint8 num_channels = num_channels)
       \<and> (stream (custom_music t) = Some st \<and> 0 < n \<and> r_malloc env
            \<and> 0 < r_SDL_GetAudioStreamData env \<longrightarrow>
            (\<exists>t'. run_hook Custom_music_callback env (Some d) n t = Inr t'
               \<and> calls t'
                   = calls t @ [Memset_zero (Dst_buffer d) n, Malloc n True, Memset_zero Mix_buffer n,
                                SDL_GetAudioStreamData st n (r_SDL_GetAudioStreamData env),
                                SDL_MixAudio d (dst_format (custom_music t))
                                  (r_SDL_GetAudioStreamData env)
                                  (percentage_to_volume (r_setting_sound_effects_volume env)),
                                Free_mix_buffer]
               \<and> custom_music t' = custom_music t \<and> lib t' = lib t))
       \<and> calls (sound_device_use_default_music_player t)
           = calls t @ Mix_HookMusic None
               # (case stream (custom_music t) of None \<Rightarrow> []
                  | Some old \<Rightarrow> [SDL_DestroyAudioStream old])
       \<and> hook_installed (lib (sound_device_use_default_music_player t)) = None
       \<and> stream (custom_music (sound_device_use_default_music_player t)) = None"
proof (intro conjI impI)
  have fm: "(if bitdepth = 8 then Some SDL_AUDIO_U8
            else if bitdepth = 16 then Some SDL_AUDIO_S16 else None) = Some fmt"
    using assms(1,2) by auto
  let ?s2 = "set_format fmt (call Mix_QuerySpec s)"
  let ?s3 = "snd (create_custom_audio_stream env fmt num_channels rate
                    device_format device_channels device_rate ?s2)"
  have c3: "calls ?s3 = calls s @ Mix_QuerySpec
               # (case stream (custom_music s) of None \<Rightarrow> []
                  | Some old \<Rightarrow> [SDL_DestroyAudioStream old])
               @ [SDL_CreateAudioStream src dst r]"
    using assms(4-6)
    by (simp add: create_custom_audio_stream_def Let_def free_custom_audio_stream_def
          split: option.splits)
  have m3: "custom_music ?s3 = \<lparr>format = fmt, dst_format = device_format, stream = r\<rparr>"
    using assms(4-6)
    by (simp add: create_custom_audio_stream_def Let_def free_custom_audio_stream_def
          set_stream_def set_dst_format_def set_format_def split: option.splits)
  have h3: "hook_installed (lib ?s3) = hook_installed (lib s)"
    by (simp add: create_custom_audio_stream_def Let_def free_custom_audio_stream_def
          create_stream_keeps_hook split: option.splits)
  have res: "fst (create_custom_audio_stream env fmt num_channels rate
                    device_format device_channels device_rate ?s2) = (if r = None then 0 else 1)"
    using assms(4-6) by (simp add: create_custom_audio_stream_def Let_def)
  let ?s4 = "sound_device_write_custom_music_data env audio_data len ?s3"
  have c4: "calls ?s4 = calls ?s3
              @ (case r of None \<Rightarrow> []
                 | Some st \<Rightarrow>
                     (case audio_data of None \<Rightarrow> []
                      | Some bytes \<Rightarrow> if 0 < len then [SDL_PutAudioStreamData st bytes len] else []))"
    using m3
    by (auto simp: sound_device_write_custom_music_data_def put_custom_audio_stream_def
          custom_audio_stream_active_def split: option.splits)
  have m4: "custom_music ?s4 = custom_music ?s3" "hook_installed (lib ?s4) = hook_installed (lib ?s3)"
    by (auto simp: sound_device_write_custom_music_data_def put_custom_audio_stream_def
          split: option.splits)
  have s': "s' = (if r = None then ?s3 else call (Mix_HookMusic (Some Custom_music_callback)) ?s4)"
    using assms(7) assms(3) fm res
    by (auto simp: sound_device_use_custom_music_player_def Let_def split: prod.splits)
  show "calls s'
           = calls s @ Mix_QuerySpec
               # (case stream (custom_music s) of None \<Rightarrow> []
                  | Some old \<Rightarrow> [SDL_DestroyAudioStream old])
               @ SDL_CreateAudioStream src dst r
               # (case r of
                    None \<Rightarrow> []
                  | Some st \<Rightarrow>
                      (case audio_data of
                         None \<Rightarrow> []
                       | Some bytes \<Rightarrow>
                           if 0 < len then [SDL_PutAudioStreamData st bytes len] else [])
                      @ [Mix_HookMusic (Some Custom_music_callback)])"
    unfolding s' using c3 c4 by (cases r) simp_all
  show "custom_music s' = \<lparr>format = fmt, dst_format = device_format, stream = r\<rparr>"
    unfolding s' using m3 m4 by simp
  show "hook_installed (lib s')
           = (if r = None then hook_installed (lib s) else Some Custom_music_callback)"
    unfolding s' using h3 m4 by simp
  show "calls (sound_device_use_default_music_player t)
           = calls t @ Mix_HookMusic None
               # (case stream (custom_music t) of None \<Rightarrow> []
                  | Some old \<Rightarrow> [SDL_DestroyAudioStream old])"
    by (simp add: sound_device_use_default_music_player_def free_custom_audio_stream_def
          split: option.splits)
  show "hook_installed (lib (sound_device_use_default_music_player t)) = None"
    by (simp add: sound_device_use_default_music_player_def free_custom_audio_stream_def
          split: option.splits)
  show "stream (custom_music (sound_device_use_default_music_player t)) = None"
    by (simp add: sound_device_use_default_music_player_def free_custom_audio_stream_def
          split: option.splits)
next
  assume "0 \<le> num_channels \<and> num_channels < 256"
  then show "Uint8 num_channels = num_channels" by (simp add: Uint8_def)
next
  assume a: "stream (custom_music t) = Some st \<and> 0 < n \<and> r_malloc env
            \<and> 0 < r_SDL_GetAudioStreamData env"
  then show "\<exists>t'. run_hook Custom_music_callback env (Some d) n t = Inr t'
               \<and> calls t'
                   = calls t @ [Memset_zero (Dst_buffer d) n, Malloc n True, Memset_zero Mix_buffer n,
                                SDL_GetAudioStreamData st n (r_SDL_GetAudioStreamData env),
                                SDL_MixAudio d (dst_format (custom_music t))
                                  (r_SDL_GetAudioStreamData env)
                                  (percentage_to_volume (r_setting_sound_effects_volume env)),
                                Free_mix_buffer]
               \<and> custom_music t' = custom_music t \<and> lib t' = lib t"
    by (simp add: custom_music_callback_def get_custom_audio_stream_def Let_def)
qed

theorem custom_music_player_mode_witness:
  "((16::int) = 8 \<or> (16::int) = 16)
   \<and> r_Mix_QuerySpec env_ok = (22050, SDL_AUDIO_S16LE, 2)
   \<and> calls (sound_device_use_custom_music_player env_ok 16 2 44100 (Some [1, 2, 3, 4]) 4 initial_state)
       = [Mix_QuerySpec,
          SDL_CreateAudioStream (SDL_AudioSpec 44100 SDL_AUDIO_S16 2)
            (SDL_AudioSpec 22050 SDL_AUDIO_S16LE 2) (Some 5),
          SDL_PutAudioStreamData 5 [1, 2, 3, 4] 4,
          Mix_HookMusic (Some Custom_music_callback)]
   \<and> custom_music (sound_device_use_custom_music_player env_ok 16 2 44100 (Some [1, 2, 3, 4]) 4 initial_state)
       = \<lparr>format = SDL_AUDIO_S16, dst_format = SDL_AUDIO_S16LE, stream = Some 5\<rparr>
   \<and> hook_installed (lib (sound_device_use_custom_music_player env_ok 16 2 44100 (Some [1, 2, 3, 4]) 4
                             initial_state)) = Some Custom_music_callback
   \<and> Uint8 2 = 2
   \<and> stream (custom_music (after ops_custom)) = Some 5
   \<and> (case run_hook Custom_music_callback env_ok (Some 0) 64 (after ops_custom) of
         Inl e \<Rightarrow> False
       | Inr t' \<Rightarrow>
           calls t' = calls (after ops_custom)
             @ [Memset_zero (Dst_buffer 0) 64, Malloc 64 True, Memset_zero Mix_buffer 64,
                SDL_GetAudioStreamData 5 64 64, SDL_MixAudio 0 SDL_AUDIO_S16LE 64 1,
                Free_mix_buffer])
   \<and> hook_installed (lib (sound_device_use_default_music_player (after ops_custom))) = None
   \<and> stream (custom_music (sound_device_use_default_music_player (after ops_custom))) = None"
proof -
  have a: "(16::int) = 8 \<or> (16::int) = 16" by simp
  have q: "r_Mix_QuerySpec env_ok = (22050, SDL_AUDIO_S16LE, 2)" by (simp add: env_ok_def)
  have u: "Uint8 2 = 2" by (simp add: Uint8_def)
  have st: "stream (custom_music (after ops_custom)) = Some 5" by code_simp
  have df: "dst_format (custom_music (after ops_custom)) = SDL_AUDIO_S16LE" by code_simp
  have h: "stream (custom_music (after ops_custom)) = Some 5 \<and> (0::int) < 64 \<and> r_malloc env_ok
            \<and> 0 < r_SDL_GetAudioStreamData env_ok"
    using st by (simp add: env_ok_def)
  note t = custom_music_player_mode [OF a refl q refl refl refl refl,
             where num_channels = 2 and rate = 44100 and audio_data = "Some [1, 2, 3, 4]"
               and len = 4 and s = initial_state and t = "after ops_custom" and st = 5
               and n = 64 and d = 0]
  have r: "r_SDL_CreateAudioStream env_ok (SDL_AudioSpec 44100 SDL_AUDIO_S16 (Uint8 2))
             (SDL_AudioSpec 22050 SDL_AUDIO_S16LE (Uint8 2)) = Some 5"
    by (simp add: env_ok_def)
  have i: "stream (custom_music initial_state) = None" by (simp add: initial_state_def)
  from t r i u have c1:
    "calls (sound_device_use_custom_music_player env_ok 16 2 44100 (Some [1, 2, 3, 4]) 4 initial_state)
       = [Mix_QuerySpec,
          SDL_CreateAudioStream (SDL_AudioSpec 44100 SDL_AUDIO_S16 2)
            (SDL_AudioSpec 22050 SDL_AUDIO_S16LE 2) (Some 5),
          SDL_PutAudioStreamData 5 [1, 2, 3, 4] 4,
          Mix_HookMusic (Some Custom_music_callback)]"
    by (simp add: initial_state_def)
  from t r have c2:
    "custom_music (sound_device_use_custom_music_player env_ok 16 2 44100 (Some [1, 2, 3, 4]) 4 initial_state)
       = \<lparr>format = SDL_AUDIO_S16, dst_format = SDL_AUDIO_S16LE, stream = Some 5\<rparr>"
    by simp
  from t r have c3:
    "hook_installed (lib (sound_device_use_custom_music_player env_ok 16 2 44100 (Some [1, 2, 3, 4]) 4
                             initial_state)) = Some Custom_music_callback"
    by simp
  from t h obtain t' where t':
    "run_hook Custom_music_callback env_ok (Some 0) 64 (after ops_custom) = Inr t'"
    "calls t'
       = calls (after ops_custom)
           @ [Memset_zero (Dst_buffer 0) 64, Malloc 64 True, Memset_zero Mix_buffer 64,
              SDL_GetAudioStreamData 5 64 (r_SDL_GetAudioStreamData env_ok),
              SDL_MixAudio 0 (dst_format (custom_music (after ops_custom)))
                (r_SDL_GetAudioStreamData env_ok)
                (percentage_to_volume (r_setting_sound_effects_volume env_ok)),
              Free_mix_buffer]"
    by blast
  have c4: "(case run_hook Custom_music_callback env_ok (Some 0) 64 (after ops_custom) of
         Inl e \<Rightarrow> False
       | Inr t' \<Rightarrow>
           calls t' = calls (after ops_custom)
             @ [Memset_zero (Dst_buffer 0) 64, Malloc 64 True, Memset_zero Mix_buffer 64,
                SDL_GetAudioStreamData 5 64 64, SDL_MixAudio 0 SDL_AUDIO_S16LE 64 1,
                Free_mix_buffer])"
    using t' df by (simp add: env_ok_def percentage_to_volume_def)
  from t have c5:
    "hook_installed (lib (sound_device_use_default_music_player (after ops_custom))) = None"
    "stream (custom_music (sound_device_use_default_music_player (after ops_custom))) = None"
    by blast+
  from a q c1 c2 c3 u st c4 c5 show ?thesis by blast
qed

text \<open>
  Counterexample to C3 as stated (the stream is created from the caller's
  \<^verbatim>\<open>num_channels\<close>): with 258 channels the stream is created for 2.
\<close>

theorem custom_music_player_258_channels:
  "calls (sound_device_use_custom_music_player env_ok 16 258 44100 (Some [1, 2, 3, 4]) 4 initial_state)
     = [Mix_QuerySpec,
        SDL_CreateAudioStream (SDL_AudioSpec 44100 SDL_AUDIO_S16LE 2)
          (SDL_AudioSpec 22050 SDL_AUDIO_S16LE 2) (Some 5),
        SDL_PutAudioStreamData 5 [1, 2, 3, 4] 4,
        Mix_HookMusic (Some Custom_music_callback)]
   \<and> SDL_CreateAudioStream (SDL_AudioSpec 44100 SDL_AUDIO_S16LE 258)
          (SDL_AudioSpec 22050 SDL_AUDIO_S16LE 2) (Some 5)
        \<notin> set (calls (sound_device_use_custom_music_player env_ok 16 258 44100
                             (Some [1, 2, 3, 4]) 4 initial_state))"
  by code_simp

subsection \<open>Playing music\<close>

text \<open>
  Claim C10. When \<^verbatim>\<open>Mix_LoadMUS\<close> succeeds and \<^verbatim>\<open>Mix_PlayMusic\<close> fails,
  \<^verbatim>\<open>sound_device_play_music\<close> returns 0 and clears the stored handle, but it makes no
  call of \<^verbatim>\<open>Mix_FreeMusic\<close> after the load: the track it loaded stays loaded in the
  mixer. The claim says that no music is loaded after a failed start.
\<close>

theorem play_music_failed_start_keeps_track_loaded:
  assumes "initialized (data s) \<noteq> 0"
    and "r_Mix_LoadMUS env f = Some h"
    and "\<not> r_Mix_PlayMusic env h"
    and "s' = snd (sound_device_play_music env (Some f) volume_pct s)"
  shows "fst (sound_device_play_music env (Some f) volume_pct s) = 0
       \<and> music (data s') = None
       \<and> calls s' = calls (sound_device_stop_music s)
                    @ [Mix_LoadMUS f (Some h), Mix_PlayMusic h (- 1) False,
                       Log_message ''Error playing music file'']
       \<and> h \<in> set (music_loaded (lib s'))"
  using assms by (simp add: sound_device_play_music_def Let_def)

theorem play_music_failed_start_keeps_track_loaded_witness:
  "initialized (data (after ops_open)) \<noteq> 0
   \<and> r_Mix_LoadMUS env_no_play ''track.mp3'' = Some 3
   \<and> \<not> r_Mix_PlayMusic env_no_play 3
   \<and> fst (sound_device_play_music env_no_play (Some ''track.mp3'') 100 (after ops_open)) = 0
   \<and> music (data (snd (sound_device_play_music env_no_play (Some ''track.mp3'') 100 (after ops_open))))
       = None
   \<and> music_loaded (lib (snd (sound_device_play_music env_no_play (Some ''track.mp3'') 100
                                (after ops_open)))) = [3]
   \<and> 3 \<in> set (music_loaded (lib (snd (sound_device_play_music env_no_play (Some ''track.mp3'') 100
                                (after ops_open)))))"
proof -
  have a: "initialized (data (after ops_open)) \<noteq> 0" by code_simp
  have b: "r_Mix_LoadMUS env_no_play ''track.mp3'' = Some 3" by (simp add: env_no_play_def env_ok_def)
  have c: "\<not> r_Mix_PlayMusic env_no_play 3" by (simp add: env_no_play_def env_ok_def)
  have d: "music_loaded (lib (snd (sound_device_play_music env_no_play (Some ''track.mp3'') 100
                                (after ops_open)))) = [3]" by code_simp
  note t = play_music_failed_start_keeps_track_loaded [OF a b c refl, of 100]
  from a b c d t show ?thesis by simp
qed

text \<open>
  The result of \<^verbatim>\<open>sound_device_play_music\<close>. It is 0 on a device that is not
  initialised, and 0 after stopping the music for a null file name. For a file name on
  an initialised device it is 1 exactly when the file was loaded and started, and then
  the stored handle is the new track and that track is playing; otherwise it is 0, the
  stored handle is null and nothing is playing: the previous track is not restored.
\<close>

theorem play_music_result:
  "(initialized (data s) = 0 \<longrightarrow>
      sound_device_play_music env fname volume_pct s = (0, s))
   \<and> (initialized (data s) \<noteq> 0 \<longrightarrow>
        sound_device_play_music env None volume_pct s = (0, sound_device_stop_music s)
        \<and> (fst (sound_device_play_music env (Some f) volume_pct s) = 1
             \<longleftrightarrow> (\<exists>h. r_Mix_LoadMUS env f = Some h \<and> r_Mix_PlayMusic env h))
        \<and> (fst (sound_device_play_music env (Some f) volume_pct s) = 0
             \<or> fst (sound_device_play_music env (Some f) volume_pct s) = 1)
        \<and> (music_inv s \<longrightarrow>
              (if fst (sound_device_play_music env (Some f) volume_pct s) = 1
               then music (data (snd (sound_device_play_music env (Some f) volume_pct s)))
                      = r_Mix_LoadMUS env f
                    \<and> music_playing (lib (snd (sound_device_play_music env (Some f) volume_pct s)))
                      = r_Mix_LoadMUS env f
               else music (data (snd (sound_device_play_music env (Some f) volume_pct s))) = None
                    \<and> music_playing (lib (snd (sound_device_play_music env (Some f) volume_pct s)))
                      = None)))"
proof (intro conjI impI)
  assume "initialized (data s) = 0"
  then show "sound_device_play_music env fname volume_pct s = (0, s)"
    by (simp add: sound_device_play_music_def)
next
  assume i: "initialized (data s) \<noteq> 0"
  then show "sound_device_play_music env None volume_pct s = (0, sound_device_stop_music s)"
    by (simp add: sound_device_play_music_def)
  show "fst (sound_device_play_music env (Some f) volume_pct s) = 1
             \<longleftrightarrow> (\<exists>h. r_Mix_LoadMUS env f = Some h \<and> r_Mix_PlayMusic env h)"
    using i
    by (cases "r_Mix_LoadMUS env f")
       (simp_all add: sound_device_play_music_def Let_def sound_device_set_music_volume_def)
  show "fst (sound_device_play_music env (Some f) volume_pct s) = 0
             \<or> fst (sound_device_play_music env (Some f) volume_pct s) = 1"
    using i by (simp add: sound_device_play_music_def Let_def)
  assume "music_inv s"
  with i have p: "music_playing (lib (sound_device_stop_music s)) = None"
    by (rule stop_music_silent)
  show "if fst (sound_device_play_music env (Some f) volume_pct s) = 1
               then music (data (snd (sound_device_play_music env (Some f) volume_pct s)))
                      = r_Mix_LoadMUS env f
                    \<and> music_playing (lib (snd (sound_device_play_music env (Some f) volume_pct s)))
                      = r_Mix_LoadMUS env f
               else music (data (snd (sound_device_play_music env (Some f) volume_pct s))) = None
                    \<and> music_playing (lib (snd (sound_device_play_music env (Some f) volume_pct s)))
                      = None"
  proof (cases "r_Mix_LoadMUS env f")
    case None
    with i p show ?thesis by (simp add: sound_device_play_music_def Let_def)
  next
    case (Some h)
    with i p show ?thesis
      by (cases "r_Mix_PlayMusic env h")
         (simp_all add: sound_device_play_music_def Let_def sound_device_set_music_volume_def)
  qed
qed

theorem play_music_result_witness:
  "initialized (data initial_state) = 0
   \<and> sound_device_play_music env_ok (Some ''track.mp3'') 100 initial_state = (0, initial_state)
   \<and> initialized (data (after ops_open)) \<noteq> 0 \<and> music_inv (after ops_open)
   \<and> sound_device_play_music env_ok None 100 (after ops_open)
       = (0, sound_device_stop_music (after ops_open))
   \<and> fst (sound_device_play_music env_ok (Some ''track.mp3'') 100 (after ops_open)) = 1
   \<and> music (data (snd (sound_device_play_music env_ok (Some ''track.mp3'') 100 (after ops_open))))
       = Some 3
   \<and> music_playing (lib (snd (sound_device_play_music env_ok (Some ''track.mp3'') 100 (after ops_open))))
       = Some 3
   \<and> fst (sound_device_play_music env_no_play (Some ''track.mp3'') 100 (after ops_open)) = 0
   \<and> music_playing (lib (snd (sound_device_play_music env_no_play (Some ''track.mp3'') 100
                                 (after ops_open)))) = None"
proof -
  have a: "initialized (data initial_state) = 0" by (simp add: initial_state_def)
  have b: "initialized (data (after ops_open)) \<noteq> 0" by code_simp
  have c: "music_inv (after ops_open)" by code_simp
  have d: "r_Mix_LoadMUS env_ok ''track.mp3'' = Some 3" "r_Mix_PlayMusic env_ok 3"
    by (simp_all add: env_ok_def)
  have e: "r_Mix_LoadMUS env_no_play ''track.mp3'' = Some 3" "\<And>h. \<not> r_Mix_PlayMusic env_no_play h"
    by (simp_all add: env_no_play_def env_ok_def)
  note t0 = play_music_result [where s = initial_state and env = env_ok
              and fname = "Some ''track.mp3''" and volume_pct = 100 and f = "''track.mp3''"]
  note t1 = play_music_result [where s = "after ops_open" and env = env_ok
              and fname = None and volume_pct = 100 and f = "''track.mp3''"]
  note t2 = play_music_result [where s = "after ops_open" and env = env_no_play
              and fname = None and volume_pct = 100 and f = "''track.mp3''"]
  from t0 a have r0:
    "sound_device_play_music env_ok (Some ''track.mp3'') 100 initial_state = (0, initial_state)"
    by blast
  from t1 b have r1: "sound_device_play_music env_ok None 100 (after ops_open)
       = (0, sound_device_stop_music (after ops_open))" by blast
  from t1 b d have r2:
    "fst (sound_device_play_music env_ok (Some ''track.mp3'') 100 (after ops_open)) = 1" by blast
  from t1 b c r2 d have r3:
    "music (data (snd (sound_device_play_music env_ok (Some ''track.mp3'') 100 (after ops_open))))
       = Some 3"
    "music_playing (lib (snd (sound_device_play_music env_ok (Some ''track.mp3'') 100 (after ops_open))))
       = Some 3"
    by simp_all
  from t2 b e have r4:
    "fst (sound_device_play_music env_no_play (Some ''track.mp3'') 100 (after ops_open)) = 0"
    by auto
  from t2 b c r4 have r5:
    "music_playing (lib (snd (sound_device_play_music env_no_play (Some ''track.mp3'') 100
                                 (after ops_open)))) = None"
    by simp
  from a r0 b c r1 r2 r3 r4 r5 show ?thesis by blast
qed

end
